theory Spec2Isabelle
  imports Complex_Main
begin

section \<open>Tensors of one sample\<close>

text \<open>
  The layer \<open>OntoAttentionLSTM\<close> of \<open>onto_attention.py\<close> works on tensors whose leading
  axis ranges over the samples of a batch. Every backend operation used by \<open>_step\<close> acts
  on each sample independently, so the model fixes one sample and drops that axis:
  the step input \<open>x_onto_aware\<close> is a (senses, hyps, embedding_dim + 1) tensor, the mask
  \<open>mask_i\<close> a (senses, hyps) grid (its trailing unit axis, which the source removes with
  \<open>K.squeeze\<close>, is represented by the entry itself), an attention grid is (senses, hyps).
  Mask entries are the 0/1 integers the backend's comparisons produce; \<open>K.switch\<close>
  selects its second argument where the condition is non-zero.

  Floating-point numbers are idealised as reals, so rounding, overflow and the special
  values are outside the model. Where a denominator vanishes the backend yields an
  infinity or a NaN while division in HOL yields 0; with \<open>eps > 0\<close> this can only
  happen in the sense probabilities, for a negative sense prior. Operands of unequal
  shape make the backend raise, whereas the list operations below truncate; the
  statements assume well-shaped operands wherever this matters.
\<close>

type_synonym vec = "real list"
type_synonym grid = "real list list"
type_synonym tensor3 = "real list list list"
type_synonym mask = "nat list list"

datatype error = IndexError | TypeError | AttributeError | ValueError

subsection \<open>Backend operations\<close>

definition switch :: "nat \<Rightarrow> 'a \<Rightarrow> 'a \<Rightarrow> 'a" where
  "switch c a b = (if c \<noteq> 0 then a else b)"

definition switch_vec :: "nat list \<Rightarrow> vec \<Rightarrow> vec \<Rightarrow> vec" where
  "switch_vec c a b = map (\<lambda>(ci, ai, bi). switch ci ai bi) (zip c (zip a b))"

definition switch_grid :: "mask \<Rightarrow> grid \<Rightarrow> grid \<Rightarrow> grid" where
  "switch_grid c a b = map (\<lambda>(ci, ai, bi). switch_vec ci ai bi) (zip c (zip a b))"

definition zeros_like :: "vec \<Rightarrow> vec" where
  "zeros_like v = map (\<lambda>_. 0) v"

definition zeros_like_grid :: "grid \<Rightarrow> grid" where
  "zeros_like_grid g = map zeros_like g"

text \<open>\<open>K.dot\<close> of a vector with a matrix of \<open>p\<close> columns, and of two vectors.\<close>

definition dot_vm :: "nat \<Rightarrow> vec \<Rightarrow> real list list \<Rightarrow> vec" where
  "dot_vm p v W = map (\<lambda>j. \<Sum>i\<leftarrow>[0..<length v]. v ! i * W ! i ! j) [0..<p]"

definition dot_vv :: "vec \<Rightarrow> vec \<Rightarrow> real" where
  "dot_vv a b = (\<Sum>i\<leftarrow>[0..<length a]. a ! i * b ! i)"

definition sigmoid :: "real \<Rightarrow> real" where
  "sigmoid z = 1 / (1 + exp (- z))"

definition softmax :: "vec \<Rightarrow> vec" where
  "softmax zs = map (\<lambda>z. exp z / sum_list (map exp zs)) zs"

definition batch_flatten :: "grid \<Rightarrow> vec" where
  "batch_flatten g = concat g"

definition shape :: "grid \<Rightarrow> nat \<times> nat" where
  "shape g = (length g, case g of [] \<Rightarrow> 0 | r # _ \<Rightarrow> length r)"

definition reshape :: "vec \<Rightarrow> nat \<times> nat \<Rightarrow> grid" where
  "reshape zs sh = map (\<lambda>s. take (snd sh) (drop (s * snd sh) zs)) [0..<fst sh]"

section \<open>Sense probabilities\<close>

text \<open>\<open>x_onto_aware[:, 0, 0, -1]\<close>: the sense-prior scalar, read from slot (0, 0).
  Indexing an empty axis raises.\<close>

fun sense_parameters :: "tensor3 \<Rightarrow> error + real" where
  "sense_parameters ((v # hs) # ss) = (if v = [] then Inl IndexError else Inr (last v))"
| "sense_parameters _ = Inl IndexError"

definition sense_indices :: "nat \<Rightarrow> vec" where
  "sense_indices n = map real [0..<n]"

definition expanded_sense_indices :: "nat \<Rightarrow> vec" where
  "expanded_sense_indices n = map (\<lambda>ind. 1 * ind) (sense_indices n)"

definition sense_scores :: "real \<Rightarrow> nat \<Rightarrow> vec" where
  "sense_scores lam n = map (\<lambda>ind. lam * exp (- lam * ind)) (expanded_sense_indices n)"

definition sense_mask :: "mask \<Rightarrow> nat list" where
  "sense_mask m = map sum_list m"

text \<open>Lines 91 to 93: the scores of senses whose hyps are all masked are set to zero.\<close>

definition masked_sense_scores :: "real \<Rightarrow> nat \<Rightarrow> mask option \<Rightarrow> vec" where
  "masked_sense_scores lam n mask_i =
     (case mask_i of
        None \<Rightarrow> sense_scores lam n
      | Some m \<Rightarrow> switch_vec (sense_mask m) (sense_scores lam n) (zeros_like (sense_scores lam n)))"

text \<open>Line 94. \<open>eps\<close> is the backend's \<open>K.epsilon()\<close>.\<close>

definition sense_probabilities :: "real \<Rightarrow> nat \<Rightarrow> real \<Rightarrow> mask option \<Rightarrow> vec" where
  "sense_probabilities eps n lam mask_i =
     (let scores = masked_sense_scores lam n mask_i
      in map (\<lambda>s. s / (sum_list scores + eps)) scores)"

section \<open>The layer object\<close>

text \<open>
  \<open>OntoAttentionLSTM\<close> extends the Keras class \<open>LSTM\<close>. The record \<open>lstm_layer\<close> holds
  the attributes of the base object that \<open>onto_attention.py\<close> reads or writes; every
  other attribute of the base object is the opaque field \<open>other\<close>. The methods of the
  base class (\<open>__init__\<close>, \<open>build\<close>, \<open>step\<close>, \<open>set_weights\<close>) and the weight
  initialisers belong to Keras, not to \<open>onto_attention.py\<close>, and are parameters of the
  functions that call them. Attributes that only \<open>build\<close> creates are optional; reading a missing one raises.
\<close>

datatype pyval = PInt int | PStr string | PBool bool | PNone

datatype weight = Matrix "real list list" | Vector vec

datatype input_spec = InputSpec_ndim nat | InputSpec_shape "int option list"

record 'k lstm_layer =
  output_dim :: nat
  consume_less :: string
  return_sequences :: bool
  initial_weights :: "weight list option"
  input_spec :: "input_spec list"
  trainable_weights :: "weight list"
  other :: 'k

record 'k onto_layer =
  base :: "'k lstm_layer"
  num_senses :: nat
  num_hyps :: nat
  use_attention :: bool
  return_attention :: bool
  input_dim :: "int option"
  input_hyp_projector :: "real list list option"
  context_hyp_projector :: "real list list option"
  hyp_scorer :: "vec option"

text \<open>The list \<open>states\<close> handed to \<open>_step\<close>: previous hidden and cell state, the
  constants of the base cell, and the mask slice of the timestep in last position.\<close>

record 'c states =
  states_h :: vec
  states_c :: vec
  states_constants :: 'c
  states_mask :: "mask option"

section \<open>The step computation\<close>

definition x_synset_embeddings :: "tensor3 \<Rightarrow> tensor3" where
  "x_synset_embeddings x_onto_aware = map (map butlast) x_onto_aware"

definition input_hyp_projection :: "nat \<Rightarrow> tensor3 \<Rightarrow> real list list \<Rightarrow> tensor3" where
  "input_hyp_projection p emb W = map (map (\<lambda>e. dot_vm p e W)) emb"

definition context_hyp_projection :: "nat \<Rightarrow> vec \<Rightarrow> real list list \<Rightarrow> vec" where
  "context_hyp_projection p h U = dot_vm p h U"

definition hyp_projection :: "tensor3 \<Rightarrow> vec \<Rightarrow> tensor3" where
  "hyp_projection ihp chp = map (map (\<lambda>v. map sigmoid (map2 (+) v chp))) ihp"

definition hyp_scores :: "tensor3 \<Rightarrow> vec \<Rightarrow> grid" where
  "hyp_scores hp scorer = map (map (\<lambda>v. dot_vv v scorer)) hp"

text \<open>Lines 99 to 107: the scores of the branch \<open>use_attention = True\<close>, with the three
  attention parameters and the projection width \<open>p\<close> (the layer's \<open>output_dim\<close>); the
  scores of masked cells are set to zero.\<close>

definition masked_hyp_scores ::
  "nat \<Rightarrow> real list list \<Rightarrow> real list list \<Rightarrow> vec \<Rightarrow> tensor3 \<Rightarrow> vec \<Rightarrow> mask option \<Rightarrow> grid" where
  "masked_hyp_scores p W U scorer emb h mask_i =
     (let ihp = input_hyp_projection p emb W;
          chp = context_hyp_projection p h U;
          hp = hyp_projection ihp chp;
          hs = hyp_scores hp scorer
      in case mask_i of None \<Rightarrow> hs
         | Some m \<Rightarrow> switch_grid m hs (zeros_like_grid hs))"

text \<open>Lines 108 to 111: one softmax over the flattened grid, reshaped back.\<close>

definition learned_hyp_attention ::
  "nat \<Rightarrow> real list list \<Rightarrow> real list list \<Rightarrow> vec \<Rightarrow> tensor3 \<Rightarrow> vec \<Rightarrow> mask option \<Rightarrow> grid" where
  "learned_hyp_attention p W U scorer emb h mask_i =
     (let hs = masked_hyp_scores p W U scorer emb h mask_i;
          scores_shape = shape hs;
          flattened_scores = batch_flatten hs
      in reshape (softmax flattened_scores) scores_shape)"

text \<open>Lines 114 to 116: the branch \<open>use_attention = False\<close>. \<open>K.ones_like(...)[:, :, :, 0]\<close>
  indexes the embedding axis at 0, which raises when that axis is empty.\<close>

definition uniform_hyp_attention :: "tensor3 \<Rightarrow> mask option \<Rightarrow> error + grid" where
  "uniform_hyp_attention emb mask_i =
     (if list_ex (list_ex (\<lambda>e. e = [])) emb then Inl IndexError
      else let ones = map (map (\<lambda>e. hd (map (\<lambda>_. 1) e))) emb
           in Inr (case mask_i of None \<Rightarrow> ones
                   | Some m \<Rightarrow> switch_grid m ones (zeros_like_grid ones)))"

definition hyp_attention ::
  "'k onto_layer \<Rightarrow> tensor3 \<Rightarrow> vec \<Rightarrow> mask option \<Rightarrow> error + grid" where
  "hyp_attention self emb h mask_i =
     (if use_attention self then
        (case (input_hyp_projector self, context_hyp_projector self, hyp_scorer self) of
           (Some W, Some U, Some scorer) \<Rightarrow>
             Inr (learned_hyp_attention (output_dim (base self)) W U scorer emb h mask_i)
         | _ \<Rightarrow> Inl AttributeError)
      else uniform_hyp_attention emb mask_i)"

definition hyp_given_sense_attention :: "real \<Rightarrow> grid \<Rightarrow> grid" where
  "hyp_given_sense_attention eps att =
     map (\<lambda>row. map (\<lambda>a. a / (sum_list row + eps)) row) att"

definition sense_hyp_attention :: "grid \<Rightarrow> vec \<Rightarrow> grid" where
  "sense_hyp_attention hgs probs = map (\<lambda>(row, p). map (\<lambda>a. a * p) row) (zip hgs probs)"

text \<open>Lines 79 to 121 of \<open>_step\<close>: the joint attention grid of the timestep.\<close>

definition joint_attention ::
  "real \<Rightarrow> 'k onto_layer \<Rightarrow> tensor3 \<Rightarrow> vec \<Rightarrow> mask option \<Rightarrow> error + grid" where
  "joint_attention eps self x_onto_aware h mask_i =
     (case sense_parameters x_onto_aware of
        Inl e \<Rightarrow> Inl e
      | Inr lam \<Rightarrow>
          (case hyp_attention self (x_synset_embeddings x_onto_aware) h mask_i of
             Inl e \<Rightarrow> Inl e
           | Inr att \<Rightarrow>
               Inr (sense_hyp_attention (hyp_given_sense_attention eps att)
                      (sense_probabilities eps (num_senses self) lam mask_i))))"

text \<open>Line 126: the mask, broadcast over the embedding axis, zeroes masked slots.\<close>

definition mask_input :: "mask option \<Rightarrow> tensor3 \<Rightarrow> tensor3" where
  "mask_input mask_i emb =
     (case mask_i of None \<Rightarrow> emb
      | Some m \<Rightarrow> map (\<lambda>(mrow, erow). map (\<lambda>(c, e). switch c e (zeros_like e)) (zip mrow erow))
                    (zip m emb))"

definition weighted_product :: "tensor3 \<Rightarrow> grid \<Rightarrow> tensor3" where
  "weighted_product emb att =
     map (\<lambda>(erow, arow). map (\<lambda>(e, a). map (\<lambda>v. v * a) e) (zip erow arow)) (zip emb att)"

definition last_axis :: "tensor3 \<Rightarrow> nat" where
  "last_axis t = (case t of (e # _) # _ \<Rightarrow> length e | _ \<Rightarrow> 0)"

text \<open>\<open>K.sum(weighted_product, axis=(1,2))\<close>: the sum over senses and hyps, per component.\<close>

definition sum_senses_hyps :: "tensor3 \<Rightarrow> vec" where
  "sum_senses_hyps t = map (\<lambda>i. \<Sum>row\<leftarrow>t. \<Sum>e\<leftarrow>row. e ! i) [0..<last_axis t]"

text \<open>Lines 123 to 130: the effective input vector handed to the base cell.\<close>

definition lstm_input_t :: "mask option \<Rightarrow> tensor3 \<Rightarrow> grid \<Rightarrow> vec" where
  "lstm_input_t mask_i x_onto_aware att =
     sum_senses_hyps (weighted_product (mask_input mask_i (x_synset_embeddings x_onto_aware)) att)"

text \<open>
  \<open>_step\<close> (lines 71 to 134). \<open>lstm_step\<close> is the step function of the base class, which
  receives \<open>states[:-1]\<close> and returns \<open>(h, [h, c])\<close>. The result is
  \<open>(h, c, sense_hyp_attention)\<close>.
\<close>

definition u_step ::
  "real \<Rightarrow> (vec \<Rightarrow> vec \<times> vec \<times> 'c \<Rightarrow> vec \<times> vec \<times> vec) \<Rightarrow> 'k onto_layer \<Rightarrow> tensor3 \<Rightarrow> 'c states
     \<Rightarrow> error + vec \<times> vec \<times> grid" where
  "u_step eps lstm_step self x_onto_aware sts =
     (let h_tm1 = states_h sts;
          mask_i = states_mask sts;
          lstm_states = (states_h sts, states_c sts, states_constants sts)
      in case joint_attention eps self x_onto_aware h_tm1 mask_i of
           Inl e \<Rightarrow> Inl e
         | Inr sha \<Rightarrow>
             (case lstm_step (lstm_input_t mask_i x_onto_aware sha) lstm_states of
                (h, h', c) \<Rightarrow> Inr (h, c, sha)))"

datatype emitted = Attention grid | Hidden vec

text \<open>\<open>step\<close> (lines 136 to 141): the emitted output and the new states \<open>[h, c]\<close>.\<close>

definition step ::
  "real \<Rightarrow> (vec \<Rightarrow> vec \<times> vec \<times> 'c \<Rightarrow> vec \<times> vec \<times> vec) \<Rightarrow> 'k onto_layer \<Rightarrow> tensor3 \<Rightarrow> 'c states
     \<Rightarrow> error + emitted \<times> vec \<times> vec" where
  "step eps lstm_step self x sts =
     (case u_step eps lstm_step self x sts of
        Inl e \<Rightarrow> Inl e
      | Inr (h, c, att) \<Rightarrow>
          if return_attention self then Inr (Attention att, h, c)
          else Inr (Hidden h, h, c))"

section \<open>Driving the step over a sequence\<close>

text \<open>
  Modelled from the spec: the sequence driver \<open>changing_ndim_rnn\<close> of the module
  \<open>keras_extensions\<close>, which \<open>call\<close> hands \<open>self.step\<close> to and which is not among the
  sources. Following section 4.5 of the specification, it visits the timesteps in
  order, gives the step function the slice of the input and of the mask together with
  the carried (hidden, cell) states, collects what each step emits and carries the
  states on. The specification fixes no policy for the states of a masked timestep, so
  \<open>carry\<close> stands for what the driver keeps of the previous and the new states given
  the mask slice (plain threading is \<open>\<lambda>m old new. new\<close>). The result is the list of
  emitted outputs and the list of carried states, one entry per timestep.
\<close>

fun changing_ndim_rnn ::
  "(tensor3 \<Rightarrow> 'c states \<Rightarrow> error + emitted \<times> vec \<times> vec) \<Rightarrow>
   (mask option \<Rightarrow> vec \<times> vec \<Rightarrow> vec \<times> vec \<Rightarrow> vec \<times> vec) \<Rightarrow>
   (tensor3 \<times> mask option) list \<Rightarrow> 'c \<Rightarrow> vec \<times> vec \<Rightarrow>
   error + emitted list \<times> (vec \<times> vec) list" where
  "changing_ndim_rnn step_function carry [] consts st = Inr ([], [])"
| "changing_ndim_rnn step_function carry ((x, m) # rest) consts st =
     (case step_function x \<lparr>states_h = fst st, states_c = snd st,
                              states_constants = consts, states_mask = m\<rparr> of
        Inl e \<Rightarrow> Inl e
      | Inr (out, new_states) \<Rightarrow>
          (case changing_ndim_rnn step_function carry rest consts (carry m st new_states) of
             Inl e \<Rightarrow> Inl e
           | Inr (outs, sts) \<Rightarrow> Inr (out # outs, carry m st new_states # sts)))"

section \<open>The output mask\<close>

text \<open>
  \<open>compute_mask\<close> (lines 150 to 158). The mask of a batch has the axes (samples,
  timesteps, senses, hyps) of the specification's data model. \<open>K.sum(mask, axis=(-3, -2))\<close>
  sums over the third and the second axis from the end, which on this mask are the
  timestep and the sense axis, and leaves the axes (samples, hyps).
\<close>

definition hyps_axis :: "nat list list list \<Rightarrow> nat" where
  "hyps_axis t = (case t of (e # _) # _ \<Rightarrow> length e | _ \<Rightarrow> 0)"

definition compute_mask ::
  "'k onto_layer \<Rightarrow> 'i \<Rightarrow> nat list list list list option \<Rightarrow> nat list list option" where
  "compute_mask self inp mask' =
     (case mask' of
        None \<Rightarrow> None
      | Some m \<Rightarrow>
          if return_sequences (base self)
          then Some (map (\<lambda>sample. map (\<lambda>j. \<Sum>timestep\<leftarrow>sample. \<Sum>sense\<leftarrow>timestep. sense ! j)
                                      [0..<hyps_axis sample]) m)
          else None)"

section \<open>Construction and build\<close>

definition cpu_warning :: string where
  "cpu_warning = ''OntoLSTM does not support consume_less = cpu. Changing it to mem.''"

text \<open>
  \<open>__init__\<close> (lines 18 to 33). \<open>lstm_init\<close> is the constructor of the base class, which
  receives the keyword arguments and creates the base object or raises. The result is
  the new layer and the warnings issued with \<open>warnings.warn\<close>; what the warnings filter
  of the process does with them is outside the model.
\<close>

definition init ::
  "((string \<rightharpoonup> pyval) \<Rightarrow> error + 'k lstm_layer) \<Rightarrow> nat \<Rightarrow> nat \<Rightarrow> nat \<Rightarrow> bool \<Rightarrow> bool \<Rightarrow>
   (string \<rightharpoonup> pyval) \<Rightarrow> error + 'k onto_layer \<times> string list" where
  "init lstm_init output_dim' num_senses' num_hyps' use_attention' return_attention' kwargs =
     (let kwargs' = kwargs(''output_dim'' \<mapsto> PInt (int output_dim'))
      in case lstm_init kwargs' of
           Inl e \<Rightarrow> Inl e
         | Inr b \<Rightarrow>
             (let self = \<lparr>base = b\<lparr>input_spec := [InputSpec_ndim 5]\<rparr>,
                          num_senses = num_senses', num_hyps = num_hyps',
                          use_attention = use_attention', return_attention = return_attention',
                          input_dim = None, input_hyp_projector = None,
                          context_hyp_projector = None, hyp_scorer = None\<rparr>
              in if consume_less (base self) = ''cpu''
                 then Inr (self\<lparr>base := (base self)\<lparr>consume_less := ''mem''\<rparr>\<rparr>, [cpu_warning])
                 else Inr (self, [])))"

text \<open>
  \<open>build\<close> (lines 35 to 63). \<open>lstm_build\<close> is the build method of the base class,
  \<open>inner_init\<close> and \<open>init_w\<close> the weight initialisers \<open>self.inner_init\<close> and \<open>self.init\<close>
  (given the shape), \<open>set_weights\<close> the method that restores supplied weights. A
  dimension of a shape is an integer or unknown (\<open>None\<close>).
\<close>

definition build ::
  "('k lstm_layer \<Rightarrow> int option list \<Rightarrow> error + 'k lstm_layer) \<Rightarrow>
   (int \<times> int \<Rightarrow> error + real list list) \<Rightarrow> (int \<Rightarrow> error + vec) \<Rightarrow>
   ('k onto_layer \<Rightarrow> weight list \<Rightarrow> error + 'k onto_layer) \<Rightarrow>
   'k onto_layer \<Rightarrow> int option list \<Rightarrow> error + 'k onto_layer" where
  "build lstm_build inner_init init_w set_weights self input_shape =
     (let self1 = self\<lparr>base := (base self)\<lparr>input_spec := [InputSpec_shape input_shape]\<rparr>\<rparr>
      in if length input_shape \<le> 4 then Inl IndexError
         else case input_shape ! 4 of
           None \<Rightarrow> Inl TypeError
         | Some d \<Rightarrow>
             (let input_dim' = d - 1;
                  self2 = self1\<lparr>input_dim := Some input_dim'\<rparr>;
                  initial_ontolstm_weights = initial_weights (base self2);
                  self3 = self2\<lparr>base := (base self2)\<lparr>initial_weights := None\<rparr>\<rparr>;
                  lstm_input_shape = take 2 input_shape @ [Some input_dim']
              in case lstm_build (base self3) lstm_input_shape of
                   Inl e \<Rightarrow> Inl e
                 | Inr b \<Rightarrow>
                     (let self4 = self3\<lparr>base := b\<lparr>input_spec := [InputSpec_shape input_shape]\<rparr>\<rparr>;
                          p = int (output_dim (base self4));
                          self5 =
                            (if use_attention self4 then
                               (case (inner_init (input_dim', p), inner_init (p, p), init_w p) of
                                  (Inr W, Inr U, Inr v) \<Rightarrow>
                                    Inr (self4\<lparr>input_hyp_projector := Some W,
                                               context_hyp_projector := Some U,
                                               hyp_scorer := Some v,
                                               base := (base self4)\<lparr>trainable_weights :=
                                                 trainable_weights (base self4)
                                                   @ [Matrix W, Matrix U, Vector v]\<rparr>\<rparr>)
                                | (Inl e, _, _) \<Rightarrow> Inl e
                                | (_, Inl e, _) \<Rightarrow> Inl e
                                | (_, _, Inl e) \<Rightarrow> Inl e)
                             else Inr self4)
                      in case self5 of
                           Inl e \<Rightarrow> Inl e
                         | Inr self6 \<Rightarrow>
                             (case initial_ontolstm_weights of
                                None \<Rightarrow> Inr self6
                              | Some w \<Rightarrow> set_weights self6 w))))"

section \<open>Notions used in the statements\<close>

text \<open>A sense is fully masked when the mask is present and all of its hyp slots carry 0;
  \<open>spec_sense_score\<close> is the score of a sense as the specification words it.\<close>

definition sense_fully_masked :: "mask option \<Rightarrow> nat \<Rightarrow> bool" where
  "sense_fully_masked mask_i k =
     (case mask_i of None \<Rightarrow> False | Some m \<Rightarrow> list_all (\<lambda>c. c = 0) (m ! k))"

definition spec_sense_score :: "real \<Rightarrow> mask option \<Rightarrow> nat \<Rightarrow> real" where
  "spec_sense_score lam mask_i k =
     (if sense_fully_masked mask_i k then 0 else lam * exp (- lam * real k))"

definition mask_senses :: "mask option \<Rightarrow> nat \<Rightarrow> bool" where
  "mask_senses mask_i n = (case mask_i of None \<Rightarrow> True | Some m \<Rightarrow> length m = n)"

definition all_senses_unmasked :: "mask option \<Rightarrow> nat \<Rightarrow> bool" where
  "all_senses_unmasked mask_i n =
     (case mask_i of None \<Rightarrow> True
      | Some m \<Rightarrow> length m = n \<and> list_all (list_ex (\<lambda>c. c \<noteq> 0)) m)"

text \<open>A grid with \<open>S\<close> rows of \<open>H\<close> entries each; a mask, when present, of that shape; a
  cell that the mask leaves in place.\<close>

definition grid_shaped :: "nat \<Rightarrow> nat \<Rightarrow> 'a list list \<Rightarrow> bool" where
  "grid_shaped S H g = (length g = S \<and> list_all (\<lambda>row. length row = H) g)"

definition mask_shaped :: "mask option \<Rightarrow> nat \<Rightarrow> nat \<Rightarrow> bool" where
  "mask_shaped mask_i S H = (case mask_i of None \<Rightarrow> True | Some m \<Rightarrow> grid_shaped S H m)"

definition cell_unmasked :: "mask option \<Rightarrow> nat \<Rightarrow> nat \<Rightarrow> bool" where
  "cell_unmasked mask_i s j = (case mask_i of None \<Rightarrow> True | Some m \<Rightarrow> m ! s ! j \<noteq> 0)"

text \<open>The hypernym attention of the learned mode as the specification words it: the
  projected embedding plus the projected hidden state, through the sigmoid, scored by
  the scoring vector, zero for a masked cell; then one softmax over all cells.\<close>

definition spec_hyp_score ::
  "nat \<Rightarrow> real list list \<Rightarrow> real list list \<Rightarrow> vec \<Rightarrow> tensor3 \<Rightarrow> vec \<Rightarrow> mask option \<Rightarrow> nat \<Rightarrow> nat \<Rightarrow> real" where
  "spec_hyp_score p W U scorer x h mask_i s j =
     (if cell_unmasked mask_i s j
      then \<Sum>q<p. sigmoid ((\<Sum>i<length (butlast (x ! s ! j)). butlast (x ! s ! j) ! i * W ! i ! q)
                            + (\<Sum>i<length h. h ! i * U ! i ! q)) * scorer ! q
      else 0)"

definition spec_learned_attention ::
  "nat \<Rightarrow> real list list \<Rightarrow> real list list \<Rightarrow> vec \<Rightarrow> tensor3 \<Rightarrow> vec \<Rightarrow> mask option \<Rightarrow> nat \<Rightarrow> nat \<Rightarrow> nat \<Rightarrow> nat \<Rightarrow> real" where
  "spec_learned_attention p W U scorer x h mask_i S H s j =
     exp (spec_hyp_score p W U scorer x h mask_i s j)
       / (\<Sum>s'<S. \<Sum>j'<H. exp (spec_hyp_score p W U scorer x h mask_i s' j'))"

text \<open>Two step inputs of the same shape that carry the same last scalar in every slot
  and the same embedding in every slot the mask leaves in place: they differ at most
  in the embedding components of masked slots.\<close>

definition agree_off_mask :: "mask option \<Rightarrow> tensor3 \<Rightarrow> tensor3 \<Rightarrow> bool" where
  "agree_off_mask mask_i x1 x2 =
     (length x1 = length x2 \<and>
      (\<forall>s<length x1. length (x1 ! s) = length (x2 ! s) \<and>
         (\<forall>j<length (x1 ! s).
            length (x1 ! s ! j) = length (x2 ! s ! j) \<and>
            last (x1 ! s ! j) = last (x2 ! s ! j) \<and>
            (cell_unmasked mask_i s j \<longrightarrow> x1 ! s ! j = x2 ! s ! j))))"

text \<open>A step input with \<open>S\<close> senses, \<open>H\<close> hyps and \<open>D\<close> scalars per slot; a layer whose
  attention parameters exist.\<close>

definition tensor_shaped :: "nat \<Rightarrow> nat \<Rightarrow> nat \<Rightarrow> tensor3 \<Rightarrow> bool" where
  "tensor_shaped S H D x = (grid_shaped S H x \<and> list_all (list_all (\<lambda>e. length e = D)) x)"

definition attention_weights_present :: "'k onto_layer \<Rightarrow> bool" where
  "attention_weights_present self =
     (input_hyp_projector self \<noteq> None \<and> context_hyp_projector self \<noteq> None \<and>
      hyp_scorer self \<noteq> None)"

text \<open>A built layer in learned mode with one sense, two hyps and embeddings of one
  component, used to instantiate the statements below.\<close>

abbreviation example_base :: "unit lstm_layer" where
  "example_base \<equiv> \<lparr>output_dim = 1, consume_less = ''mem'', return_sequences = True,
     initial_weights = None, input_spec = [InputSpec_ndim 5], trainable_weights = [],
     other = ()\<rparr>"

abbreviation example_learned :: "unit onto_layer" where
  "example_learned \<equiv> \<lparr>base = example_base, num_senses = 1, num_hyps = 2,
     use_attention = True, return_attention = True, input_dim = Some 1,
     input_hyp_projector = Some [[0]], context_hyp_projector = Some [[0]],
     hyp_scorer = Some [0]\<rparr>"

text \<open>A built layer in learned mode with two senses, two hyps, embeddings of two
  components and non-zero attention parameters.\<close>

abbreviation example_learned_senses :: "unit onto_layer" where
  "example_learned_senses \<equiv> \<lparr>base = example_base, num_senses = 2, num_hyps = 2,
     use_attention = True, return_attention = True, input_dim = Some 2,
     input_hyp_projector = Some [[1], [2]], context_hyp_projector = Some [[3]],
     hyp_scorer = Some [2]\<rparr>"

text \<open>Layers in uniform mode: with one sense and one hyp, and with one sense and two
  hyps.\<close>

abbreviation example_uniform :: "unit onto_layer" where
  "example_uniform \<equiv> \<lparr>base = example_base, num_senses = 1, num_hyps = 1,
     use_attention = False, return_attention = False, input_dim = Some 1,
     input_hyp_projector = None, context_hyp_projector = None, hyp_scorer = None\<rparr>"

abbreviation example_uniform_hyps :: "unit onto_layer" where
  "example_uniform_hyps \<equiv> \<lparr>base = example_base, num_senses = 1, num_hyps = 2,
     use_attention = False, return_attention = False, input_dim = Some 1,
     input_hyp_projector = None, context_hyp_projector = None, hyp_scorer = None\<rparr>"

text \<open>A base constructor that records the keyword arguments \<open>output_dim\<close> and
  \<open>consume_less\<close> (the latter defaulting to \<open>cpu\<close>), and a layer before \<open>build\<close>.\<close>

abbreviation example_lstm_init :: "(string \<rightharpoonup> pyval) \<Rightarrow> error + unit lstm_layer" where
  "example_lstm_init \<equiv> \<lambda>kwargs.
     Inr \<lparr>output_dim = (case kwargs ''output_dim'' of Some (PInt n) \<Rightarrow> nat n | _ \<Rightarrow> 0),
          consume_less = (case kwargs ''consume_less'' of Some (PStr s) \<Rightarrow> s | _ \<Rightarrow> ''cpu''),
          return_sequences = False, initial_weights = None, input_spec = [InputSpec_ndim 3],
          trainable_weights = [], other = ()\<rparr>"

abbreviation example_unbuilt :: "unit onto_layer" where
  "example_unbuilt \<equiv> \<lparr>base = example_base, num_senses = 1, num_hyps = 2,
     use_attention = False, return_attention = False, input_dim = None,
     input_hyp_projector = None, context_hyp_projector = None, hyp_scorer = None\<rparr>"

section \<open>Properties\<close>

subsection \<open>Sense probabilities\<close>


lemma length_sense_scores: "length (sense_scores lam n) = n"
  by (simp add: sense_scores_def expanded_sense_indices_def sense_indices_def)

lemma nth_sense_scores: "k < n \<Longrightarrow> sense_scores lam n ! k = lam * exp (- lam * real k)"
  by (simp add: sense_scores_def expanded_sense_indices_def sense_indices_def)

lemma length_switch_vec: "length (switch_vec c a b) = min (length c) (min (length a) (length b))"
  by (simp add: switch_vec_def)

lemma nth_switch_vec:
  "k < length c \<Longrightarrow> k < length a \<Longrightarrow> k < length b \<Longrightarrow>
   switch_vec c a b ! k = (if c ! k \<noteq> 0 then a ! k else b ! k)"
  by (simp add: switch_vec_def switch_def)

lemma sum_list_nth_upt: "sum_list xs = (\<Sum>j<length xs. xs ! j)"
  by (simp add: sum_list_sum_nth atLeast0LessThan)

lemma sum_list_nat_eq_0: "sum_list (xs::nat list) = 0 \<longleftrightarrow> list_all (\<lambda>c. c = 0) xs"
  by (induction xs) auto

lemma length_masked_sense_scores:
  "mask_senses mask_i n \<Longrightarrow> length (masked_sense_scores lam n mask_i) = n"
  by (auto simp: mask_senses_def masked_sense_scores_def length_sense_scores length_switch_vec sense_mask_def zeros_like_def split: option.splits)

lemma nth_masked_sense_scores:
  "mask_senses mask_i n \<Longrightarrow> k < n \<Longrightarrow>
   masked_sense_scores lam n mask_i ! k = spec_sense_score lam mask_i k"
  by (auto simp: mask_senses_def masked_sense_scores_def length_sense_scores nth_switch_vec sense_mask_def zeros_like_def
        nth_sense_scores spec_sense_score_def sense_fully_masked_def sum_list_nat_eq_0 list_all_iff split: option.splits)

lemma nth_sense_probabilities:
  assumes "mask_senses mask_i n" and "k < n"
  shows "sense_probabilities eps n lam mask_i ! k =
           spec_sense_score lam mask_i k / ((\<Sum>j<n. spec_sense_score lam mask_i j) + eps)"
proof -
  have "sum_list (masked_sense_scores lam n mask_i) = (\<Sum>j<n. spec_sense_score lam mask_i j)"
    using assms(1) by (simp add: sum_list_nth_upt length_masked_sense_scores nth_masked_sense_scores)
  then show ?thesis
    using assms by (simp add: sense_probabilities_def Let_def length_masked_sense_scores nth_masked_sense_scores)
qed

lemma sense_parameters_canonical:
  "x \<noteq> [] \<Longrightarrow> x ! 0 \<noteq> [] \<Longrightarrow> x ! 0 ! 0 \<noteq> [] \<Longrightarrow> sense_parameters x = Inr (last (x ! 0 ! 0))"
  by (cases x rule: sense_parameters.cases) auto

text \<open>
  Claim C2. With the sense-prior scalar \<open>\<lambda>\<close> read from slot (sense 0, hyp 0) of the step
  input, the probability of sense \<open>k < num_senses\<close> is the score \<open>\<lambda> * exp (- \<lambda> * k)\<close>,
  replaced by 0 when all hyps of sense \<open>k\<close> are masked, divided by the sum of these
  scores over all senses plus \<open>eps\<close>.
\<close>

theorem sense_probability_formula:
  assumes "x \<noteq> []" and "x ! 0 \<noteq> []" and "x ! 0 ! 0 \<noteq> []"
    and "mask_senses mask_i n" and "k < n"
  shows "\<exists>lam. sense_parameters x = Inr lam \<and> lam = last (x ! 0 ! 0) \<and>
           sense_probabilities eps n lam mask_i ! k =
             spec_sense_score lam mask_i k / ((\<Sum>j<n. spec_sense_score lam mask_i j) + eps)"
  using assms by (simp add: sense_parameters_canonical nth_sense_probabilities)

theorem sense_probability_formula_witness:
  "sense_parameters [[[5, 1], [6, 1]], [[7, 1], [8, 1]]] = Inr 1 \<and>
   sense_probabilities (1 / 10 ^ 7) 2 1 (Some [[1, 0], [0, 0]]) ! 0 = 10000000 / 10000001 \<and>
   sense_probabilities (1 / 10 ^ 7) 2 1 (Some [[1, 0], [0, 0]]) ! 1 = 0"
proof -
  let ?x = "[[[5, 1], [6, 1]], [[7, 1], [8, 1]]] :: tensor3"
  let ?m = "Some [[1, 0], [0, 0]] :: mask option"
  have shp: "?x \<noteq> []" "?x ! 0 \<noteq> []" "?x ! 0 ! 0 \<noteq> []" "mask_senses ?m 2"
    by (simp_all add: mask_senses_def)
  from sense_probability_formula [OF shp, of 0 "1 / 10 ^ 7"]
       sense_probability_formula [OF shp, of 1 "1 / 10 ^ 7"]
  show ?thesis
    by (simp add: spec_sense_score_def sense_fully_masked_def numeral_2_eq_2)
qed

lemma all_unmasked_not_fully:
  "all_senses_unmasked mask_i n \<Longrightarrow> k < n \<Longrightarrow> \<not> sense_fully_masked mask_i k"
  by (auto simp: all_senses_unmasked_def sense_fully_masked_def list_all_iff list_ex_iff
      split: option.splits)

lemma all_unmasked_mask_senses: "all_senses_unmasked mask_i n \<Longrightarrow> mask_senses mask_i n"
  by (auto simp: all_senses_unmasked_def mask_senses_def split: option.splits)

lemma spec_sense_score_nonneg: "0 \<le> lam \<Longrightarrow> 0 \<le> spec_sense_score lam mask_i k"
  by (simp add: spec_sense_score_def)

lemma sense_probabilities_strict:
  assumes "0 < lam" and "0 < eps" and "all_senses_unmasked mask_i n" and "j < k" and "k < n"
  shows "sense_probabilities eps n lam mask_i ! k < sense_probabilities eps n lam mask_i ! j"
proof -
  let ?S = "(\<Sum>i<n. spec_sense_score lam mask_i i) + eps"
  have "0 \<le> (\<Sum>i<n. spec_sense_score lam mask_i i)"
    using assms(1) by (intro sum_nonneg spec_sense_score_nonneg) simp
  then have pos: "0 < ?S" using assms(2) by simp
  have "lam * real j < lam * real k" using assms(1,4) by simp
  then have "lam * exp (- lam * real k) < lam * exp (- lam * real j)"
    using assms(1) by simp
  then have "spec_sense_score lam mask_i k < spec_sense_score lam mask_i j"
    using assms(3,4,5) by (simp add: spec_sense_score_def all_unmasked_not_fully)
  then have "spec_sense_score lam mask_i k / ?S < spec_sense_score lam mask_i j / ?S"
    using pos by (simp add: divide_strict_right_mono)
  then show ?thesis
    using assms(3,4,5) by (simp add: nth_sense_probabilities all_unmasked_mask_senses)
qed

text \<open>
  Claim C7. For \<open>\<lambda> > 0\<close> and a configuration in which no sense is fully masked, the sense
  probabilities are non-increasing in the sense index; for \<open>\<lambda> = 1\<close> and three senses they
  are strictly decreasing.
\<close>

theorem sense_probabilities_nonincreasing:
  assumes "0 < lam" and "0 < eps" and "all_senses_unmasked mask_i n"
  shows "(\<forall>j k. j \<le> k \<and> k < n \<longrightarrow>
            sense_probabilities eps n lam mask_i ! k \<le> sense_probabilities eps n lam mask_i ! j)
       \<and> (lam = 1 \<and> n = 3 \<longrightarrow>
            sense_probabilities eps n lam mask_i ! 2 < sense_probabilities eps n lam mask_i ! 1
          \<and> sense_probabilities eps n lam mask_i ! 1 < sense_probabilities eps n lam mask_i ! 0)"
proof (intro conjI allI impI)
  fix j k assume "j \<le> k \<and> k < n"
  then show "sense_probabilities eps n lam mask_i ! k \<le> sense_probabilities eps n lam mask_i ! j"
    using sense_probabilities_strict [OF assms, of j k] by (cases "j = k") auto
next
  assume "lam = 1 \<and> n = 3"
  then show "sense_probabilities eps n lam mask_i ! 2 < sense_probabilities eps n lam mask_i ! 1"
    using sense_probabilities_strict [OF assms, of 1 2] by simp
next
  assume "lam = 1 \<and> n = 3"
  then show "sense_probabilities eps n lam mask_i ! 1 < sense_probabilities eps n lam mask_i ! 0"
    using sense_probabilities_strict [OF assms, of 0 1] by simp
qed

theorem sense_probabilities_nonincreasing_witness:
  "all_senses_unmasked (Some [[1, 0], [0, 1], [1, 1]]) 3 \<and>
   sense_probabilities (1 / 10 ^ 7) 3 1 (Some [[1, 0], [0, 1], [1, 1]]) ! 2
     < sense_probabilities (1 / 10 ^ 7) 3 1 (Some [[1, 0], [0, 1], [1, 1]]) ! 1 \<and>
   sense_probabilities (1 / 10 ^ 7) 3 1 (Some [[1, 0], [0, 1], [1, 1]]) ! 1
     < sense_probabilities (1 / 10 ^ 7) 3 1 (Some [[1, 0], [0, 1], [1, 1]]) ! 0 \<and>
   sense_probabilities (1 / 10 ^ 7) 3 1 (Some [[1, 0], [0, 1], [1, 1]]) ! 2
     \<le> sense_probabilities (1 / 10 ^ 7) 3 1 (Some [[1, 0], [0, 1], [1, 1]]) ! 0"
proof -
  let ?m = "Some [[1, 0], [0, 1], [1, 1]] :: mask option"
  have u: "all_senses_unmasked ?m 3"
    by (simp add: all_senses_unmasked_def)
  have l: "(0::real) < 1" and e: "(0::real) < 1 / 10 ^ 7" by simp_all
  note t = sense_probabilities_nonincreasing [OF l e u]
  from t have "sense_probabilities (1 / 10 ^ 7) 3 1 ?m ! 2 \<le> sense_probabilities (1 / 10 ^ 7) 3 1 ?m ! 0"
    by (elim conjE) (erule allE [of _ 0], erule allE [of _ 2], simp)
  with t u show ?thesis by simp
qed

subsection \<open>Hypernym attention, learned mode\<close>

lemma grid_shaped_nth: "grid_shaped S H g \<Longrightarrow> s < S \<Longrightarrow> length (g ! s) = H"
  by (simp add: grid_shaped_def list_all_length)

lemma grid_shaped_length: "grid_shaped S H g \<Longrightarrow> length g = S"
  by (simp add: grid_shaped_def)

lemma grid_shapedI: "length g = S \<Longrightarrow> (\<And>s. s < S \<Longrightarrow> length (g ! s) = H) \<Longrightarrow> grid_shaped S H g"
  by (simp add: grid_shaped_def list_all_length)

lemma grid_shaped_map: "grid_shaped S H g \<Longrightarrow> grid_shaped S H (map (map f) g)"
  by (simp add: grid_shaped_def list_all_length)

lemma take_drop_concat:
  "list_all (\<lambda>row. length row = H) g \<Longrightarrow> s < length g \<Longrightarrow> take H (drop (s * H) (concat g)) = g ! s"
proof (induction g arbitrary: s)
  case Nil
  then show ?case by simp
next
  case (Cons r g)
  show ?case
  proof (cases s)
    case 0
    with Cons.prems show ?thesis by simp
  next
    case (Suc s')
    with Cons.prems have "take H (drop (s' * H) (concat g)) = g ! s'"
      by (intro Cons.IH) simp_all
    with Suc Cons.prems show ?thesis by simp
  qed
qed

lemma shape_grid_shaped: "grid_shaped S H g \<Longrightarrow> 0 < S \<Longrightarrow> shape g = (S, H)"
  by (cases g) (simp_all add: shape_def grid_shaped_def)

lemma reshape_softmax_flatten:
  assumes "grid_shaped S H g"
  shows "reshape (softmax (batch_flatten g)) (shape g)
           = map (map (\<lambda>z. exp z / sum_list (map exp (concat g)))) g"
proof (cases "S = 0")
  case True
  with assms show ?thesis by (simp add: grid_shaped_def shape_def reshape_def)
next
  case False
  then have sh: "shape g = (S, H)" using assms by (simp add: shape_grid_shaped)
  let ?f = "\<lambda>z. exp z / sum_list (map exp (concat g))"
  have rows: "list_all (\<lambda>row. length row = H) (map (map ?f) g)"
    using assms by (simp add: grid_shaped_def list_all_length)
  have "reshape (softmax (batch_flatten g)) (shape g)
          = map (\<lambda>s. take H (drop (s * H) (concat (map (map ?f) g)))) [0..<S]"
    by (simp add: reshape_def sh softmax_def batch_flatten_def map_concat)
  also have "\<dots> = map (\<lambda>s. map (map ?f) g ! s) [0..<S]"
    using rows assms by (intro map_cong refl take_drop_concat) (simp_all add: grid_shaped_def)
  also have "\<dots> = map (map ?f) g"
    using assms by (intro nth_equalityI) (simp_all add: grid_shaped_def)
  finally show ?thesis .
qed

lemma sum_list_concat_rows:
  "sum_list (map f (concat g)) = sum_list (map (\<lambda>row. sum_list (map f row)) g)"
  by (induction g) simp_all

lemma sum_list_concat_grid:
  assumes "grid_shaped S H g"
  shows "sum_list (map f (concat g)) = (\<Sum>s<S. \<Sum>j<H. f (g ! s ! j))"
proof -
  have "sum_list (map f (concat g)) = sum_list (map (\<lambda>row. sum_list (map f row)) g)"
    by (rule sum_list_concat_rows)
  also have "\<dots> = (\<Sum>s<S. sum_list (map f (g ! s)))"
    using assms by (simp add: sum_list_sum_nth grid_shaped_def atLeast0LessThan)
  also have "\<dots> = (\<Sum>s<S. \<Sum>j<H. f (g ! s ! j))"
    using assms by (intro sum.cong refl) (simp add: sum_list_sum_nth grid_shaped_nth atLeast0LessThan)
  finally show ?thesis .
qed

lemma nth_dot_vm: "q < p \<Longrightarrow> dot_vm p v W ! q = (\<Sum>i<length v. v ! i * W ! i ! q)"
  by (simp add: dot_vm_def interv_sum_list_conv_sum_set_nat atLeast0LessThan)

lemma length_dot_vm: "length (dot_vm p v W) = p"
  by (simp add: dot_vm_def)

lemma dot_vv_sum: "dot_vv a b = (\<Sum>i<length a. a ! i * b ! i)"
  by (simp add: dot_vv_def interv_sum_list_conv_sum_set_nat atLeast0LessThan)

lemma nth_switch_grid:
  assumes "grid_shaped S H c" and "grid_shaped S H a" and "grid_shaped S H b" and "s < S" and "j < H"
  shows "switch_grid c a b ! s ! j = (if c ! s ! j \<noteq> 0 then a ! s ! j else b ! s ! j)"
  using assms by (simp add: switch_grid_def grid_shaped_def list_all_length nth_switch_vec)

lemma grid_shaped_switch_grid:
  assumes "grid_shaped S H c" and "grid_shaped S H a" and "grid_shaped S H b"
  shows "grid_shaped S H (switch_grid c a b)"
  using assms by (simp add: switch_grid_def grid_shaped_def list_all_length length_switch_vec)

lemma grid_shaped_zeros: "grid_shaped S H g \<Longrightarrow> grid_shaped S H (zeros_like_grid g)"
  by (simp add: zeros_like_grid_def zeros_like_def grid_shaped_def list_all_length)

lemma nth_zeros_like_grid: "grid_shaped S H g \<Longrightarrow> s < S \<Longrightarrow> j < H \<Longrightarrow> zeros_like_grid g ! s ! j = 0"
  by (simp add: zeros_like_grid_def zeros_like_def grid_shaped_def list_all_length)

lemma learned_hyp_attention_alt:
  "learned_hyp_attention p W U scorer emb h mask_i =
     reshape (softmax (batch_flatten (masked_hyp_scores p W U scorer emb h mask_i)))
             (shape (masked_hyp_scores p W U scorer emb h mask_i))"
  by (simp add: learned_hyp_attention_def Let_def)

lemma grid_shaped_hyp_scores:
  "grid_shaped S H emb \<Longrightarrow>
   grid_shaped S H (hyp_scores (hyp_projection (input_hyp_projection p emb W) chp) scorer)"
  by (simp add: hyp_scores_def hyp_projection_def input_hyp_projection_def grid_shaped_def
        list_all_length)

lemma nth_hyp_scores:
  assumes "grid_shaped S H emb" and "s < S" and "j < H"
  shows "hyp_scores (hyp_projection (input_hyp_projection p emb W)
                                    (context_hyp_projection p h U)) scorer ! s ! j
         = (\<Sum>q<p. sigmoid ((\<Sum>i<length (emb ! s ! j). emb ! s ! j ! i * W ! i ! q)
                            + (\<Sum>i<length h. h ! i * U ! i ! q)) * scorer ! q)"
  using assms
  by (simp add: hyp_scores_def hyp_projection_def input_hyp_projection_def
        context_hyp_projection_def grid_shaped_def list_all_length dot_vv_sum length_dot_vm
        nth_dot_vm)

lemma grid_shaped_masked_hyp_scores:
  assumes "grid_shaped S H emb" and "mask_shaped mask_i S H"
  shows "grid_shaped S H (masked_hyp_scores p W U scorer emb h mask_i)"
  using assms
  by (auto simp: masked_hyp_scores_def Let_def mask_shaped_def grid_shaped_hyp_scores
        grid_shaped_zeros grid_shaped_switch_grid split: option.splits)

lemma nth_masked_hyp_scores:
  assumes "grid_shaped S H x" and "mask_shaped mask_i S H" and "s < S" and "j < H"
  shows "masked_hyp_scores p W U scorer (x_synset_embeddings x) h mask_i ! s ! j
           = spec_hyp_score p W U scorer x h mask_i s j"
proof -
  have e: "grid_shaped S H (x_synset_embeddings x)"
    using assms(1) by (simp add: x_synset_embeddings_def grid_shaped_map)
  have n: "x_synset_embeddings x ! s ! j = butlast (x ! s ! j)"
    using assms(1,3,4) by (simp add: x_synset_embeddings_def grid_shaped_def list_all_length)
  show ?thesis
  proof (cases mask_i)
    case None
    then show ?thesis
      using nth_hyp_scores [OF e assms(3,4)] n
      by (simp add: masked_hyp_scores_def spec_hyp_score_def cell_unmasked_def)
  next
    case (Some m)
    then have m: "grid_shaped S H m" using assms(2) by (simp add: mask_shaped_def)
    show ?thesis
      using Some nth_hyp_scores [OF e assms(3,4)] n assms(3,4)
      by (simp add: masked_hyp_scores_def spec_hyp_score_def cell_unmasked_def Let_def
            nth_switch_grid [OF m grid_shaped_hyp_scores [OF e]
              grid_shaped_zeros [OF grid_shaped_hyp_scores [OF e]]]
            nth_zeros_like_grid [OF grid_shaped_hyp_scores [OF e]])
  qed
qed

lemma nth_learned_hyp_attention:
  assumes "grid_shaped S H x" and "mask_shaped mask_i S H" and "s < S" and "j < H"
  shows "learned_hyp_attention p W U scorer (x_synset_embeddings x) h mask_i ! s ! j
           = spec_learned_attention p W U scorer x h mask_i S H s j"
proof -
  let ?g = "masked_hyp_scores p W U scorer (x_synset_embeddings x) h mask_i"
  have e: "grid_shaped S H (x_synset_embeddings x)"
    using assms(1) by (simp add: x_synset_embeddings_def grid_shaped_map)
  have g: "grid_shaped S H ?g"
    using e assms(2) by (rule grid_shaped_masked_hyp_scores)
  have Z: "sum_list (map exp (concat ?g))
             = (\<Sum>s'<S. \<Sum>j'<H. exp (spec_hyp_score p W U scorer x h mask_i s' j'))"
    unfolding sum_list_concat_grid [OF g]
    by (intro sum.cong refl) (simp add: nth_masked_hyp_scores [OF assms(1,2)])
  have "learned_hyp_attention p W U scorer (x_synset_embeddings x) h mask_i ! s ! j
          = exp (?g ! s ! j) / sum_list (map exp (concat ?g))"
    using g assms(3,4)
    by (simp add: learned_hyp_attention_alt reshape_softmax_flatten [OF g] grid_shaped_def
          list_all_length)
  then show ?thesis
    by (simp add: Z nth_masked_hyp_scores [OF assms] spec_learned_attention_def)
qed

lemma grid_shaped_learned_hyp_attention:
  assumes "grid_shaped S H emb" and "mask_shaped mask_i S H"
  shows "grid_shaped S H (learned_hyp_attention p W U scorer emb h mask_i)"
  using grid_shaped_masked_hyp_scores [OF assms, of p W U scorer h]
  by (simp add: learned_hyp_attention_alt reshape_softmax_flatten grid_shaped_map)

text \<open>
  Claim C3. In learned mode the hypernym attention of cell (s, j) is the softmax, taken
  once over all \<open>S * H\<close> cells of the grid, of the cell scores, where the score of an
  unmasked cell is the scoring vector applied to the sigmoid of the projected embedding
  plus the projected hidden state, and the score of a masked cell is zero; the result
  has the shape of the (sense, hyp) grid.
\<close>

theorem learned_attention_joint_softmax:
  assumes "use_attention self" and "input_hyp_projector self = Some W"
    and "context_hyp_projector self = Some U" and "hyp_scorer self = Some scorer"
    and "grid_shaped S H x" and "mask_shaped mask_i S H"
  shows "\<exists>att. hyp_attention self (x_synset_embeddings x) h mask_i = Inr att \<and>
           grid_shaped S H att \<and>
           (\<forall>s<S. \<forall>j<H. att ! s ! j =
              spec_learned_attention (output_dim (base self)) W U scorer x h mask_i S H s j)"
proof -
  have e: "grid_shaped S H (x_synset_embeddings x)"
    using assms(5) by (simp add: x_synset_embeddings_def grid_shaped_map)
  show ?thesis
    using assms(1-4) grid_shaped_learned_hyp_attention [OF e assms(6)]
      nth_learned_hyp_attention [OF assms(5,6)]
    by (simp add: hyp_attention_def)
qed

theorem learned_attention_joint_softmax_witness:
  "use_attention example_learned_senses \<and>
   grid_shaped 2 2 [[[1, 0, 1], [0, 1, 1]], [[1, 1, 1], [- 3, 0, 1 :: real]]] \<and>
   mask_shaped (Some [[1, 0], [1, 1]]) 2 2 \<and>
   (\<exists>att. hyp_attention example_learned_senses
             (x_synset_embeddings [[[1, 0, 1], [0, 1, 1]], [[1, 1, 1], [- 3, 0, 1]]]) [1]
             (Some [[1, 0], [1, 1]]) = Inr att \<and>
      att ! 0 ! 0 = exp (sigmoid 4 * 2)
                      / (exp (sigmoid 4 * 2) + 1 + (exp (sigmoid 6 * 2) + exp (sigmoid 0 * 2))) \<and>
      att ! 0 ! 1 = 1 / (exp (sigmoid 4 * 2) + 1 + (exp (sigmoid 6 * 2) + exp (sigmoid 0 * 2))) \<and>
      att ! 1 ! 0 = exp (sigmoid 6 * 2)
                      / (exp (sigmoid 4 * 2) + 1 + (exp (sigmoid 6 * 2) + exp (sigmoid 0 * 2))) \<and>
      att ! 1 ! 1 = exp (sigmoid 0 * 2)
                      / (exp (sigmoid 4 * 2) + 1 + (exp (sigmoid 6 * 2) + exp (sigmoid 0 * 2))) \<and>
      att ! 0 ! 0 + att ! 0 ! 1 < 1)"
proof -
  let ?x = "[[[1, 0, 1], [0, 1, 1]], [[1, 1, 1], [- 3, 0, 1]]] :: tensor3"
  let ?m = "Some [[1, 0], [1, 1]] :: mask option"
  let ?Z = "exp (sigmoid 4 * 2) + 1 + (exp (sigmoid 6 * 2) + exp (sigmoid 0 * 2)) :: real"
  have g: "grid_shaped 2 2 ?x" and m: "mask_shaped ?m 2 2"
    by (simp_all add: grid_shaped_def mask_shaped_def)
  have w: "use_attention example_learned_senses"
    "input_hyp_projector example_learned_senses = Some [[1], [2]]"
    "context_hyp_projector example_learned_senses = Some [[3]]"
    "hyp_scorer example_learned_senses = Some [2]"
    by simp_all
  have s: "spec_learned_attention 1 [[1], [2]] [[3]] [2] ?x [1] ?m 2 2 0 0 = exp (sigmoid 4 * 2) / ?Z"
          "spec_learned_attention 1 [[1], [2]] [[3]] [2] ?x [1] ?m 2 2 0 1 = 1 / ?Z"
          "spec_learned_attention 1 [[1], [2]] [[3]] [2] ?x [1] ?m 2 2 1 0 = exp (sigmoid 6 * 2) / ?Z"
          "spec_learned_attention 1 [[1], [2]] [[3]] [2] ?x [1] ?m 2 2 1 1 = exp (sigmoid 0 * 2) / ?Z"
    by (simp_all add: spec_learned_attention_def spec_hyp_score_def cell_unmasked_def
          numeral_2_eq_2)
  from learned_attention_joint_softmax [OF w g m, of "[1]"]
  obtain att where a: "hyp_attention example_learned_senses (x_synset_embeddings ?x) [1] ?m = Inr att"
    and v: "\<forall>s<2. \<forall>j<2. att ! s ! j = spec_learned_attention 1 [[1], [2]] [[3]] [2] ?x [1] ?m 2 2 s j"
    by auto
  from v s have c: "att ! 0 ! 0 = exp (sigmoid 4 * 2) / ?Z" "att ! 0 ! 1 = 1 / ?Z"
    "att ! 1 ! 0 = exp (sigmoid 6 * 2) / ?Z" "att ! 1 ! 1 = exp (sigmoid 0 * 2) / ?Z"
    by simp_all
  have Z: "exp (sigmoid 4 * 2) + 1 < ?Z"
    by (simp add: add_pos_pos)
  have "0 < ?Z" by (simp add: add_pos_pos)
  with Z have "(exp (sigmoid 4 * 2) + 1) / ?Z < 1" by simp
  then have "att ! 0 ! 0 + att ! 0 ! 1 < 1"
    unfolding c by (simp only: add_divide_distrib)
  with a c g m show ?thesis by simp
qed

subsection \<open>Masked embeddings\<close>

lemma grid_eqI:
  assumes "grid_shaped S H a" and "grid_shaped S H b"
    and "\<And>s j. s < S \<Longrightarrow> j < H \<Longrightarrow> a ! s ! j = b ! s ! j"
  shows "a = b"
  using assms by (intro nth_equalityI) (simp_all add: grid_shaped_def list_all_length)

lemma agree_grid_shaped:
  "agree_off_mask mask_i x1 x2 \<Longrightarrow> grid_shaped S H x1 \<Longrightarrow> grid_shaped S H x2"
  by (simp add: agree_off_mask_def grid_shaped_def list_all_length)

lemma agree_None: "agree_off_mask None x1 x2 \<Longrightarrow> x1 = x2"
  by (intro nth_equalityI) (simp_all add: agree_off_mask_def cell_unmasked_def)

lemma agree_row_length:
  "agree_off_mask mask_i x1 x2 \<Longrightarrow> s < length x1 \<Longrightarrow> length (x1 ! s) = length (x2 ! s)"
  by (simp add: agree_off_mask_def)

lemma agree_slot:
  "agree_off_mask mask_i x1 x2 \<Longrightarrow> s < length x1 \<Longrightarrow> j < length (x1 ! s) \<Longrightarrow>
   length (x1 ! s ! j) = length (x2 ! s ! j) \<and> last (x1 ! s ! j) = last (x2 ! s ! j)"
  by (simp add: agree_off_mask_def)

lemma agree_sense_parameters:
  assumes "agree_off_mask mask_i x1 x2"
  shows "sense_parameters x1 = sense_parameters x2"
proof (cases "x1 = [] \<or> x1 ! 0 = []")
  case True
  have "length x1 = length x2"
    using assms by (simp add: agree_off_mask_def)
  moreover have "x1 \<noteq> [] \<Longrightarrow> length (x1 ! 0) = length (x2 ! 0)"
    using agree_row_length [OF assms, of 0] by simp
  ultimately have "x2 = [] \<or> x2 ! 0 = []"
    using True by (cases "x1 = []") auto
  with True show ?thesis
    by (cases x1 rule: sense_parameters.cases; cases x2 rule: sense_parameters.cases) auto
next
  case False
  then obtain v1 hs1 ss1 where x1: "x1 = (v1 # hs1) # ss1"
    by (cases x1 rule: sense_parameters.cases) auto
  have "length x1 = length x2"
    using assms by (simp add: agree_off_mask_def)
  moreover have "x1 \<noteq> [] \<Longrightarrow> length (x1 ! 0) = length (x2 ! 0)"
    using agree_row_length [OF assms, of 0] by simp
  ultimately have "x2 \<noteq> []" "x2 ! 0 \<noteq> []"
    using False by auto
  then obtain v2 hs2 ss2 where x2: "x2 = (v2 # hs2) # ss2"
    by (cases x2 rule: sense_parameters.cases) auto
  from agree_slot [OF assms, of 0 0] x1 x2 have "length v1 = length v2 \<and> last v1 = last v2"
    by simp
  then show ?thesis by (auto simp: x1 x2)
qed

lemma agree_spec_hyp_score:
  assumes "agree_off_mask mask_i x1 x2" and "grid_shaped S H x1" and "s < S" and "j < H"
  shows "spec_hyp_score p W U scorer x1 h mask_i s j = spec_hyp_score p W U scorer x2 h mask_i s j"
  using assms by (auto simp: spec_hyp_score_def agree_off_mask_def grid_shaped_def list_all_length)

lemma agree_learned:
  assumes "agree_off_mask mask_i x1 x2" and "grid_shaped S H x1" and "mask_shaped mask_i S H"
  shows "learned_hyp_attention p W U scorer (x_synset_embeddings x1) h mask_i
           = learned_hyp_attention p W U scorer (x_synset_embeddings x2) h mask_i"
proof -
  note g2 = agree_grid_shaped [OF assms(1,2)]
  have e1: "grid_shaped S H (x_synset_embeddings x1)" and e2: "grid_shaped S H (x_synset_embeddings x2)"
    using assms(2) g2 by (simp_all add: x_synset_embeddings_def grid_shaped_map)
  have "masked_hyp_scores p W U scorer (x_synset_embeddings x1) h mask_i
          = masked_hyp_scores p W U scorer (x_synset_embeddings x2) h mask_i"
  proof (rule grid_eqI [OF grid_shaped_masked_hyp_scores [OF e1 assms(3)]
                           grid_shaped_masked_hyp_scores [OF e2 assms(3)]])
    fix s j assume "s < S" "j < H"
    then show "masked_hyp_scores p W U scorer (x_synset_embeddings x1) h mask_i ! s ! j
                 = masked_hyp_scores p W U scorer (x_synset_embeddings x2) h mask_i ! s ! j"
      by (simp add: nth_masked_hyp_scores [OF assms(2,3)] nth_masked_hyp_scores [OF g2 assms(3)]
            agree_spec_hyp_score [OF assms(1,2)])
  qed
  then show ?thesis by (simp add: learned_hyp_attention_alt)
qed

lemma uniform_hyp_attention_lengths:
  "uniform_hyp_attention emb mask_i =
     (if list_ex (list_ex (\<lambda>n. n = 0)) (map (map length) emb) then Inl IndexError
      else let ones = map (map (\<lambda>n. hd (replicate n 1))) (map (map length) emb)
           in Inr (case mask_i of None \<Rightarrow> ones
                   | Some m \<Rightarrow> switch_grid m ones (zeros_like_grid ones)))"
proof -
  have r: "list_ex (\<lambda>n. n = 0) (map length row) = list_ex (\<lambda>e. e = []) row" for row :: "real list list"
    by (induction row) simp_all
  have c: "list_ex (list_ex (\<lambda>n. n = 0)) (map (map length) emb) = list_ex (list_ex (\<lambda>e. e = [])) emb"
    by (induction emb) (simp_all add: r)
  have o: "map (map (\<lambda>n. hd (replicate n (1::real)))) (map (map length) emb)
             = map (map (\<lambda>e. hd (map (\<lambda>_. 1) e))) emb"
    by (simp add: comp_def map_replicate_const)
  show ?thesis
    unfolding c o by (simp add: uniform_hyp_attention_def)
qed

lemma agree_lengths:
  assumes "agree_off_mask mask_i x1 x2"
  shows "map (map length) (x_synset_embeddings x1) = map (map length) (x_synset_embeddings x2)"
  using assms
  by (intro nth_equalityI) (simp_all add: agree_off_mask_def x_synset_embeddings_def)

lemma agree_uniform:
  assumes "agree_off_mask mask_i x1 x2"
  shows "uniform_hyp_attention (x_synset_embeddings x1) mask_i
           = uniform_hyp_attention (x_synset_embeddings x2) mask_i"
  by (simp only: uniform_hyp_attention_lengths agree_lengths [OF assms])

lemma grid_shaped_mask_input:
  "grid_shaped S H m \<Longrightarrow> grid_shaped S H emb \<Longrightarrow> grid_shaped S H (mask_input (Some m) emb)"
  by (simp add: mask_input_def grid_shaped_def list_all_length)

lemma nth_mask_input:
  "grid_shaped S H m \<Longrightarrow> grid_shaped S H emb \<Longrightarrow> s < S \<Longrightarrow> j < H \<Longrightarrow>
   mask_input (Some m) emb ! s ! j = (if m ! s ! j \<noteq> 0 then emb ! s ! j else zeros_like (emb ! s ! j))"
  by (simp add: mask_input_def grid_shaped_def list_all_length switch_def)

lemma nth_x_synset_embeddings:
  "grid_shaped S H x \<Longrightarrow> s < S \<Longrightarrow> j < H \<Longrightarrow> x_synset_embeddings x ! s ! j = butlast (x ! s ! j)"
  by (simp add: x_synset_embeddings_def grid_shaped_def list_all_length)

lemma grid_shaped_x_synset_embeddings:
  "grid_shaped S H x \<Longrightarrow> grid_shaped S H (x_synset_embeddings x)"
  by (simp add: x_synset_embeddings_def grid_shaped_map)

lemma agree_mask_input:
  assumes "agree_off_mask mask_i x1 x2" and "grid_shaped S H x1" and "mask_shaped mask_i S H"
  shows "mask_input mask_i (x_synset_embeddings x1) = mask_input mask_i (x_synset_embeddings x2)"
proof (cases mask_i)
  case None
  with assms(1) have "x1 = x2" by (simp add: agree_None)
  then show ?thesis by simp
next
  case (Some m)
  then have m: "grid_shaped S H m" using assms(3) by (simp add: mask_shaped_def)
  note g2 = agree_grid_shaped [OF assms(1,2)]
  note e1 = grid_shaped_x_synset_embeddings [OF assms(2)]
  note e2 = grid_shaped_x_synset_embeddings [OF g2]
  have "mask_input (Some m) (x_synset_embeddings x1) = mask_input (Some m) (x_synset_embeddings x2)"
  proof (rule grid_eqI [OF grid_shaped_mask_input [OF m e1] grid_shaped_mask_input [OF m e2]])
    fix s j assume s: "s < S" and j: "j < H"
    then have sj: "s < length x1" "j < length (x1 ! s)"
      using assms(2) by (simp_all add: grid_shaped_def list_all_length)
    from assms(1) sj
    have a: "length (x1 ! s ! j) = length (x2 ! s ! j)"
         "m ! s ! j \<noteq> 0 \<Longrightarrow> x1 ! s ! j = x2 ! s ! j"
      by (simp_all add: agree_off_mask_def Some cell_unmasked_def)
    then show "mask_input (Some m) (x_synset_embeddings x1) ! s ! j
                 = mask_input (Some m) (x_synset_embeddings x2) ! s ! j"
      using s j
      by (simp add: nth_mask_input [OF m e1] nth_mask_input [OF m e2]
            nth_x_synset_embeddings [OF assms(2)] nth_x_synset_embeddings [OF g2]
            zeros_like_def map_replicate_const)
  qed
  then show ?thesis by (simp add: Some)
qed

lemma sense_prior_of_masked_slot_is_read:
  "step (1 / 10 ^ 7) (\<lambda>inp st. (inp, inp, inp)) example_uniform_hyps [[[5, 1], [7, 1]]]
       \<lparr>states_h = [0], states_c = [0], states_constants = (), states_mask = Some [[0, 1]]\<rparr>
   \<noteq> step (1 / 10 ^ 7) (\<lambda>inp st. (inp, inp, inp)) example_uniform_hyps [[[5, 2], [7, 1]]]
       \<lparr>states_h = [0], states_c = [0], states_constants = (), states_mask = Some [[0, 1]]\<rparr>"
  by (simp add: step_def u_step_def joint_attention_def hyp_attention_def
        uniform_hyp_attention_def hyp_given_sense_attention_def sense_hyp_attention_def
        sense_probabilities_def masked_sense_scores_def sense_scores_def
        expanded_sense_indices_def sense_indices_def sense_mask_def x_synset_embeddings_def
        switch_grid_def switch_vec_def switch_def zeros_like_def zeros_like_grid_def
        lstm_input_t_def mask_input_def weighted_product_def sum_senses_hyps_def last_axis_def
        Let_def)

text \<open>
  Claim C9. For fixed weights, prior states and mask, two step inputs that differ only
  in the embedding components of slots whose mask bit is 0 give the same result of
  \<open>_step\<close> and of \<open>step\<close>: the same emitted output and the same new hidden and cell
  state (or the same error). The last scalar of every slot is required to agree: the
  sense prior is read from slot (0, 0) whatever its mask bit, and changing it there
  while that slot is masked changes the result of \<open>step\<close>.
\<close>

theorem masked_embeddings_do_not_interfere:
  assumes "agree_off_mask (states_mask sts) x1 x2" and "grid_shaped S H x1"
    and "mask_shaped (states_mask sts) S H"
  shows "u_step eps lstm_step self x1 sts = u_step eps lstm_step self x2 sts \<and>
         step eps lstm_step self x1 sts = step eps lstm_step self x2 sts \<and>
         step (1 / 10 ^ 7) (\<lambda>inp st. (inp, inp, inp)) example_uniform_hyps [[[5, 1], [7, 1]]]
             \<lparr>states_h = [0], states_c = [0], states_constants = (), states_mask = Some [[0, 1]]\<rparr>
         \<noteq> step (1 / 10 ^ 7) (\<lambda>inp st. (inp, inp, inp)) example_uniform_hyps [[[5, 2], [7, 1]]]
             \<lparr>states_h = [0], states_c = [0], states_constants = (), states_mask = Some [[0, 1]]\<rparr>"
proof -
  have h: "hyp_attention self (x_synset_embeddings x1) h (states_mask sts)
             = hyp_attention self (x_synset_embeddings x2) h (states_mask sts)" for h
    using agree_learned [OF assms] agree_uniform [OF assms(1)]
    by (simp add: hyp_attention_def split: option.splits)
  have j: "joint_attention eps self x1 h (states_mask sts)
             = joint_attention eps self x2 h (states_mask sts)" for h
    by (simp add: joint_attention_def agree_sense_parameters [OF assms(1)] h cong: sum.case_cong)
  have i: "lstm_input_t (states_mask sts) x1 att = lstm_input_t (states_mask sts) x2 att" for att
    by (simp add: lstm_input_t_def agree_mask_input [OF assms])
  have "u_step eps lstm_step self x1 sts = u_step eps lstm_step self x2 sts"
    by (simp add: u_step_def j i cong: sum.case_cong)
  then show ?thesis
    using sense_prior_of_masked_slot_is_read by (simp add: step_def)
qed

theorem masked_embeddings_do_not_interfere_witness:
  "agree_off_mask (Some [[1, 0]]) [[[5, 1], [7, 1]]] [[[5, 1], [9, 1]]] \<and>
   grid_shaped 1 2 [[[5, 1], [7, 1 :: real]]] \<and>
   mask_shaped (Some [[1, 0]]) 1 2 \<and>
   step (1 / 10 ^ 7) (\<lambda>inp st. (inp, inp, fst (snd st))) example_learned [[[5, 1], [7, 1]]]
       \<lparr>states_h = [0], states_c = [0], states_constants = (), states_mask = Some [[1, 0]]\<rparr>
   = step (1 / 10 ^ 7) (\<lambda>inp st. (inp, inp, fst (snd st))) example_learned [[[5, 1], [9, 1]]]
       \<lparr>states_h = [0], states_c = [0], states_constants = (), states_mask = Some [[1, 0]]\<rparr>"
proof -
  let ?sts = "\<lparr>states_h = [0], states_c = [0], states_constants = (), states_mask = Some [[1, 0]]\<rparr>"
  have a: "agree_off_mask (states_mask ?sts) [[[5, 1], [7, 1]]] [[[5, 1], [9, 1]]]"
    by (simp add: agree_off_mask_def cell_unmasked_def less_Suc_eq numeral_2_eq_2)
  have g: "grid_shaped 1 2 [[[5, 1], [7, 1 :: real]]]"
    by (simp add: grid_shaped_def)
  have m: "mask_shaped (states_mask ?sts) 1 2"
    by (simp add: mask_shaped_def grid_shaped_def)
  from masked_embeddings_do_not_interfere [OF a g m, where eps = "1 / 10 ^ 7"
         and lstm_step = "\<lambda>inp st. (inp, inp, fst (snd st))" and self = example_learned] a g m
  show ?thesis by simp
qed

subsection \<open>The joint attention grid and the effective input\<close>

lemma tensor_shaped_grid: "tensor_shaped S H D x \<Longrightarrow> grid_shaped S H x"
  by (simp add: tensor_shaped_def)

lemma tensor_shaped_slot:
  "tensor_shaped S H D x \<Longrightarrow> s < S \<Longrightarrow> j < H \<Longrightarrow> length (x ! s ! j) = D"
  by (simp add: tensor_shaped_def grid_shaped_def list_all_length)

lemma tensor_shaped_sense_parameters:
  assumes "tensor_shaped S H D x" and "0 < S" and "0 < H" and "0 < D"
  shows "sense_parameters x = Inr (last (x ! 0 ! 0))"
proof -
  have "x \<noteq> []" "x ! 0 \<noteq> []"
    using assms by (auto simp: tensor_shaped_def grid_shaped_def list_all_length)
  moreover have "x ! 0 ! 0 \<noteq> []"
    using tensor_shaped_slot [OF assms(1-3)] assms(4) by auto
  ultimately show ?thesis by (rule sense_parameters_canonical)
qed

lemma nth_hyp_given_sense_attention:
  assumes "grid_shaped S H att" and "s < S" and "j < H"
  shows "hyp_given_sense_attention eps att ! s ! j = att ! s ! j / ((\<Sum>i<H. att ! s ! i) + eps)"
  using assms
  by (simp add: hyp_given_sense_attention_def grid_shaped_def list_all_length sum_list_nth_upt)

lemma grid_shaped_hyp_given_sense_attention:
  "grid_shaped S H att \<Longrightarrow> grid_shaped S H (hyp_given_sense_attention eps att)"
  by (simp add: hyp_given_sense_attention_def grid_shaped_def list_all_length)

lemma nth_sense_hyp_attention:
  assumes "grid_shaped S H hgs" and "length probs = S" and "s < S" and "j < H"
  shows "sense_hyp_attention hgs probs ! s ! j = hgs ! s ! j * probs ! s"
  using assms by (simp add: sense_hyp_attention_def grid_shaped_def list_all_length)

lemma grid_shaped_sense_hyp_attention:
  "grid_shaped S H hgs \<Longrightarrow> length probs = S \<Longrightarrow> grid_shaped S H (sense_hyp_attention hgs probs)"
  by (simp add: sense_hyp_attention_def grid_shaped_def list_all_length)

lemma length_sense_probabilities:
  "mask_senses mask_i n \<Longrightarrow> length (sense_probabilities eps n lam mask_i) = n"
  by (simp add: sense_probabilities_def Let_def length_masked_sense_scores)

lemma mask_shaped_senses: "mask_shaped mask_i S H \<Longrightarrow> mask_senses mask_i S"
  by (simp add: mask_shaped_def mask_senses_def grid_shaped_def split: option.splits)

lemma joint_attention_cells:
  assumes "sense_parameters x = Inr lam"
    and "hyp_attention self (x_synset_embeddings x) h mask_i = Inr att"
    and "grid_shaped (num_senses self) H att" and "mask_shaped mask_i (num_senses self) H"
  shows "\<exists>J. joint_attention eps self x h mask_i = Inr J \<and> grid_shaped (num_senses self) H J \<and>
           (\<forall>s<num_senses self. \<forall>j<H.
              J ! s ! j = att ! s ! j / ((\<Sum>i<H. att ! s ! i) + eps)
                          * (spec_sense_score lam mask_i s
                             / ((\<Sum>k<num_senses self. spec_sense_score lam mask_i k) + eps)))"
proof -
  let ?S = "num_senses self"
  let ?P = "sense_probabilities eps ?S lam mask_i"
  let ?G = "hyp_given_sense_attention eps att"
  note ms = mask_shaped_senses [OF assms(4)]
  have J: "joint_attention eps self x h mask_i = Inr (sense_hyp_attention ?G ?P)"
    by (simp add: joint_attention_def assms(1,2))
  have g: "grid_shaped ?S H ?G"
    using assms(3) by (rule grid_shaped_hyp_given_sense_attention)
  have l: "length ?P = ?S"
    using ms by (rule length_sense_probabilities)
  have "sense_hyp_attention ?G ?P ! s ! j
          = att ! s ! j / ((\<Sum>i<H. att ! s ! i) + eps)
            * (spec_sense_score lam mask_i s / ((\<Sum>k<?S. spec_sense_score lam mask_i k) + eps))"
    if "s < ?S" and "j < H" for s j
    using that
    by (simp add: nth_sense_hyp_attention [OF g l] nth_hyp_given_sense_attention [OF assms(3)]
          nth_sense_probabilities [OF ms])
  then show ?thesis
    using J grid_shaped_sense_hyp_attention [OF g l] by simp
qed

lemma uniform_hyp_attention_cells:
  assumes "tensor_shaped S H D x" and "1 < D" and "mask_shaped mask_i S H"
  shows "\<exists>att. uniform_hyp_attention (x_synset_embeddings x) mask_i = Inr att \<and>
           grid_shaped S H att \<and>
           (\<forall>s<S. \<forall>j<H. att ! s ! j = (if cell_unmasked mask_i s j then 1 else 0))"
proof -
  let ?emb = "x_synset_embeddings x"
  let ?ones = "map (map (\<lambda>e. hd (map (\<lambda>_. 1::real) e))) ?emb"
  have ne: "\<not> list_ex (list_ex (\<lambda>e. e = [])) ?emb"
  proof -
    have "butlast e \<noteq> []" if "row \<in> set x" and "e \<in> set row" for row e
    proof -
      from assms(1) that have "length e = D"
        by (auto simp: tensor_shaped_def list_all_iff)
      with assms(2) show ?thesis by (cases e rule: rev_cases) auto
    qed
    then show ?thesis
      by (fastforce simp: list_ex_iff x_synset_embeddings_def)
  qed
  have e: "grid_shaped S H ?emb"
    using assms(1) by (simp add: tensor_shaped_def grid_shaped_x_synset_embeddings)
  have o: "grid_shaped S H ?ones"
    using e by (rule grid_shaped_map)
  have o1: "?ones ! s ! j = 1" if "s < S" and "j < H" for s j
  proof -
    have "length (x ! s ! j) = D" using tensor_shaped_slot [OF assms(1) that] .
    then have "butlast (x ! s ! j) \<noteq> []"
      using assms(2) by (cases "x ! s ! j" rule: rev_cases) auto
    then show ?thesis
      using e that
      by (simp add: grid_shaped_def list_all_length nth_x_synset_embeddings [OF tensor_shaped_grid [OF assms(1)]]
            hd_map)
  qed
  show ?thesis
  proof (cases mask_i)
    case None
    then show ?thesis
      using ne o o1 by (simp add: uniform_hyp_attention_def cell_unmasked_def Let_def)
  next
    case (Some m)
    then have m: "grid_shaped S H m" using assms(3) by (simp add: mask_shaped_def)
    have "switch_grid m ?ones (zeros_like_grid ?ones) ! s ! j = (if m ! s ! j \<noteq> 0 then 1 else 0)"
      if "s < S" and "j < H" for s j
      using that o1
      by (simp add: nth_switch_grid [OF m o grid_shaped_zeros [OF o]] nth_zeros_like_grid [OF o])
    then show ?thesis
      using ne Some grid_shaped_switch_grid [OF m o grid_shaped_zeros [OF o]]
      by (simp add: uniform_hyp_attention_def cell_unmasked_def Let_def)
  qed
qed

lemma hyp_attention_grid:
  assumes "tensor_shaped S H D x" and "1 < D" and "mask_shaped mask_i S H"
    and "use_attention self \<longrightarrow> attention_weights_present self"
  shows "\<exists>att. hyp_attention self (x_synset_embeddings x) h mask_i = Inr att \<and> grid_shaped S H att \<and>
           (\<not> use_attention self \<longrightarrow>
              (\<forall>s<S. \<forall>j<H. att ! s ! j = (if cell_unmasked mask_i s j then 1 else 0)))"
proof (cases "use_attention self")
  case True
  with assms(4) obtain W U v where "input_hyp_projector self = Some W"
    "context_hyp_projector self = Some U" "hyp_scorer self = Some v"
    by (auto simp: attention_weights_present_def)
  then show ?thesis
    using True grid_shaped_learned_hyp_attention
            [OF grid_shaped_x_synset_embeddings [OF tensor_shaped_grid [OF assms(1)]] assms(3)]
    by (simp add: hyp_attention_def)
next
  case False
  then show ?thesis
    using uniform_hyp_attention_cells [OF assms(1-3)] by (simp add: hyp_attention_def)
qed

text \<open>What holds in both modes and in uniform mode: every cell of a fully masked sense
  is zero, and in uniform mode every masked cell is zero.\<close>

lemma fully_masked_sense_score:
  "sense_fully_masked mask_i s \<Longrightarrow> spec_sense_score lam mask_i s = 0"
  by (simp add: spec_sense_score_def)

lemma joint_attention_zero_cells:
  assumes "tensor_shaped (num_senses self) H D x"
    and "0 < num_senses self" and "0 < H" and "1 < D"
    and "mask_shaped mask_i (num_senses self) H"
    and "use_attention self \<longrightarrow> attention_weights_present self"
  shows "\<exists>J. joint_attention eps self x h mask_i = Inr J \<and> grid_shaped (num_senses self) H J \<and>
     (\<forall>s<num_senses self. \<forall>j<H. sense_fully_masked mask_i s \<longrightarrow> J ! s ! j = 0) \<and>
     (\<not> use_attention self \<longrightarrow>
        (\<forall>s<num_senses self. \<forall>j<H. \<not> cell_unmasked mask_i s j \<longrightarrow> J ! s ! j = 0))"
proof -
  let ?S = "num_senses self"
  let ?lam = "last (x ! 0 ! 0)"
  let ?sc = "spec_sense_score ?lam mask_i"
  have D: "0 < D" using assms(4) by simp
  note sp = tensor_shaped_sense_parameters [OF assms(1,2,3) D]
  from hyp_attention_grid [OF assms(1,4,5,6), of h]
  obtain att where att: "hyp_attention self (x_synset_embeddings x) h mask_i = Inr att"
    and ga: "grid_shaped ?S H att"
    and ua: "\<not> use_attention self \<Longrightarrow> s < ?S \<Longrightarrow> j < H \<Longrightarrow>
               att ! s ! j = (if cell_unmasked mask_i s j then 1 else 0)" for s j
    by auto
  from joint_attention_cells [OF sp att ga assms(5), of eps]
  obtain J where J: "joint_attention eps self x h mask_i = Inr J"
    and gJ: "grid_shaped ?S H J"
    and cJ: "s < ?S \<Longrightarrow> j < H \<Longrightarrow>
               J ! s ! j = att ! s ! j / ((\<Sum>i<H. att ! s ! i) + eps)
                           * (?sc s / ((\<Sum>k<?S. ?sc k) + eps))" for s j
    by auto
  have full: "J ! s ! j = 0" if "sense_fully_masked mask_i s" and "s < ?S" and "j < H" for s j
    using cJ [OF that(2,3)] fully_masked_sense_score [OF that(1)] by simp
  have masked: "J ! s ! j = 0"
    if "\<not> use_attention self" and "s < ?S" and "j < H" and "\<not> cell_unmasked mask_i s j" for s j
    using cJ [OF that(2,3)] ua [OF that(1,2,3)] that(4) by simp
  show ?thesis
    using J gJ full masked by blast
qed

text \<open>In learned mode, for a positive sense prior, every cell of a sense that is not
  fully masked has a positive weight, whether the cell is masked or not.\<close>

lemma spec_learned_attention_pos:
  assumes "s < S" and "j < H"
  shows "0 < spec_learned_attention p W U scorer x h mask_i S H s j"
proof -
  let ?e = "\<lambda>s' j'. exp (spec_hyp_score p W U scorer x h mask_i s' j')"
  have "0 < (\<Sum>j'<H. ?e s' j')" for s'
    using assms(2) by (intro sum_pos) auto
  then have "0 < (\<Sum>s'<S. \<Sum>j'<H. ?e s' j')"
    using assms(1) by (intro sum_pos) auto
  then show ?thesis
    by (simp add: spec_learned_attention_def)
qed

lemma learned_cell_positive:
  assumes "0 < eps" and "tensor_shaped (num_senses self) H D x" and "0 < D"
    and "mask_shaped mask_i (num_senses self) H"
    and "use_attention self" and "attention_weights_present self"
    and "0 < last (x ! 0 ! 0)"
    and "s < num_senses self" and "j < H" and "\<not> sense_fully_masked mask_i s"
  shows "\<exists>J. joint_attention eps self x h mask_i = Inr J \<and> 0 < J ! s ! j"
proof -
  let ?S = "num_senses self"
  let ?lam = "last (x ! 0 ! 0)"
  let ?sc = "spec_sense_score ?lam mask_i"
  have S: "0 < ?S" and H: "0 < H" using assms(8,9) by simp_all
  note gx = tensor_shaped_grid [OF assms(2)]
  note sp = tensor_shaped_sense_parameters [OF assms(2) S H assms(3)]
  from assms(6) obtain W U v where w: "input_hyp_projector self = Some W"
    "context_hyp_projector self = Some U" "hyp_scorer self = Some v"
    by (auto simp: attention_weights_present_def)
  let ?att = "learned_hyp_attention (output_dim (base self)) W U v (x_synset_embeddings x) h mask_i"
  have att: "hyp_attention self (x_synset_embeddings x) h mask_i = Inr ?att"
    using assms(5) w by (simp add: hyp_attention_def)
  have ga: "grid_shaped ?S H ?att"
    using grid_shaped_x_synset_embeddings [OF gx] assms(4)
    by (rule grid_shaped_learned_hyp_attention)
  have pos: "0 < ?att ! s' ! j'" if "s' < ?S" and "j' < H" for s' j'
    using that by (simp add: nth_learned_hyp_attention [OF gx assms(4)] spec_learned_attention_pos)
  from joint_attention_cells [OF sp att ga assms(4), of eps]
  obtain J where J: "joint_attention eps self x h mask_i = Inr J"
    and cJ: "J ! s ! j = ?att ! s ! j / ((\<Sum>i<H. ?att ! s ! i) + eps)
                           * (?sc s / ((\<Sum>k<?S. ?sc k) + eps))"
    using assms(8,9) by auto
  have "0 \<le> (\<Sum>i<H. ?att ! s ! i)"
    using pos [OF assms(8)] by (intro sum_nonneg) (simp add: less_imp_le)
  then have r: "0 < (\<Sum>i<H. ?att ! s ! i) + eps" using assms(1) by simp
  have "0 \<le> (\<Sum>k<?S. ?sc k)"
    using assms(7) by (intro sum_nonneg spec_sense_score_nonneg) simp
  then have d: "0 < (\<Sum>k<?S. ?sc k) + eps" using assms(1) by simp
  have sc: "0 < ?sc s"
    using assms(7,10) by (simp add: spec_sense_score_def)
  have "0 < J ! s ! j"
    unfolding cJ using pos [OF assms(8,9)] r d sc by simp
  with J show ?thesis by blast
qed

text \<open>
  Claim C1. The claim asks that every masked cell carry zero attention weight and that
  the unmasked cells sum to 1, in both modes. In learned mode the score of a masked
  cell is set to 0 before the softmax, so the cell receives the weight \<open>exp 0 / Z\<close>. At
  the input below (one sense, two hyps, the second one masked, sense prior 1) the
  masked cell carries the same weight as the unmasked one, nearly one half, and the
  unmasked cell carries nearly one half instead of nearly 1.
\<close>

theorem joint_attention_learned_masked_cell:
  "joint_attention (1 / 10 ^ 7) example_learned [[[5, 1], [7, 1]]] [0] (Some [[1, 0]])
     = Inr [[50000000000000 / 100000020000001, 50000000000000 / 100000020000001]] \<and>
   \<not> cell_unmasked (Some [[1, 0]]) 0 1 \<and>
   (1 / 4 :: real) < 50000000000000 / 100000020000001 \<and>
   (50000000000000 / 100000020000001 :: real) < 3 / 4"
  by (simp add: joint_attention_def hyp_attention_def learned_hyp_attention_def
        masked_hyp_scores_def hyp_given_sense_attention_def sense_hyp_attention_def
        sense_probabilities_def masked_sense_scores_def sense_scores_def
        expanded_sense_indices_def sense_indices_def sense_mask_def x_synset_embeddings_def
        input_hyp_projection_def context_hyp_projection_def hyp_projection_def hyp_scores_def
        switch_grid_def switch_vec_def switch_def zeros_like_def zeros_like_grid_def dot_vm_def
        dot_vv_def sigmoid_def softmax_def batch_flatten_def shape_def reshape_def
        cell_unmasked_def Let_def numeral_2_eq_2)

lemma degenerate_joint_attention:
  assumes "num_senses self = 1" and "e \<noteq> []"
    and "mask_i = None \<or> (\<exists>c. c \<noteq> 0 \<and> mask_i = Some [[c]])"
    and "use_attention self \<longrightarrow> attention_weights_present self"
  shows "joint_attention eps self [[e @ [lam]]] h mask_i
           = Inr [[1 / (1 + eps) * (lam / (lam + eps))]]"
proof -
  have sp: "sense_parameters [[e @ [lam]]] = Inr lam" by simp
  have pr: "sense_probabilities eps (num_senses self) lam mask_i = [lam / (lam + eps)]"
    using assms(3) unfolding assms(1)
    by (auto simp: sense_probabilities_def masked_sense_scores_def sense_scores_def
          expanded_sense_indices_def sense_indices_def sense_mask_def switch_vec_def switch_def
          zeros_like_def Let_def)
  have ha: "hyp_attention self (x_synset_embeddings [[e @ [lam]]]) h mask_i = Inr [[1]]"
  proof (cases "use_attention self")
    case True
    with assms(4) obtain W U v where w: "input_hyp_projector self = Some W"
      "context_hyp_projector self = Some U" "hyp_scorer self = Some v"
      by (auto simp: attention_weights_present_def)
    have "learned_hyp_attention (output_dim (base self)) W U v [[e]] h mask_i = [[1]]"
      using assms(3)
      by (auto simp: learned_hyp_attention_def masked_hyp_scores_def input_hyp_projection_def
            hyp_projection_def hyp_scores_def switch_grid_def switch_vec_def switch_def
            zeros_like_grid_def zeros_like_def softmax_def batch_flatten_def shape_def
            reshape_def Let_def)
    with True w show ?thesis
      by (simp add: hyp_attention_def x_synset_embeddings_def)
  next
    case False
    have "uniform_hyp_attention [[e]] mask_i = Inr [[1]]"
      using assms(2,3)
      by (auto simp: uniform_hyp_attention_def switch_grid_def switch_vec_def switch_def
            zeros_like_grid_def zeros_like_def Let_def hd_map)
    with False show ?thesis
      by (simp add: hyp_attention_def x_synset_embeddings_def)
  qed
  show ?thesis
    by (simp add: joint_attention_def sp ha pr hyp_given_sense_attention_def
          sense_hyp_attention_def)
qed

lemma degenerate_lstm_input:
  assumes "mask_i = None \<or> (\<exists>c. c \<noteq> 0 \<and> mask_i = Some [[c]])"
  shows "lstm_input_t mask_i [[e @ [lam]]] [[k]] = map (\<lambda>v. v * k) e"
  using assms
  by (auto simp: lstm_input_t_def x_synset_embeddings_def mask_input_def weighted_product_def
        sum_senses_hyps_def last_axis_def switch_def intro!: nth_equalityI)

text \<open>
  Claim C4, as amended. With one sense, one hyp and nothing masked, the joint attention
  grid is the single weight \<open>1 / (1 + eps) * (\<lambda> / (\<lambda> + eps))\<close>, the effective input
  vector is the embedding scaled by that weight, and \<open>_step\<close> applies the base cell to
  this scaled embedding.
\<close>

theorem degenerate_effective_input:
  assumes "num_senses self = 1" and "e \<noteq> []"
    and "states_mask sts = None \<or> (\<exists>c. c \<noteq> 0 \<and> states_mask sts = Some [[c]])"
    and "use_attention self \<longrightarrow> attention_weights_present self"
  shows "joint_attention eps self [[e @ [lam]]] (states_h sts) (states_mask sts)
           = Inr [[1 / (1 + eps) * (lam / (lam + eps))]] \<and>
         lstm_input_t (states_mask sts) [[e @ [lam]]] [[1 / (1 + eps) * (lam / (lam + eps))]]
           = map (\<lambda>v. v * (1 / (1 + eps) * (lam / (lam + eps)))) e \<and>
         u_step eps lstm_step self [[e @ [lam]]] sts
           = (case lstm_step (map (\<lambda>v. v * (1 / (1 + eps) * (lam / (lam + eps)))) e)
                    (states_h sts, states_c sts, states_constants sts) of
                (h, h', c) \<Rightarrow> Inr (h, c, [[1 / (1 + eps) * (lam / (lam + eps))]]))"
  using degenerate_joint_attention [OF assms, of eps lam "states_h sts"]
    degenerate_lstm_input [OF assms(3), of e lam "1 / (1 + eps) * (lam / (lam + eps))"]
  by (simp add: u_step_def)

theorem degenerate_effective_input_witness:
  "num_senses example_uniform = 1 \<and>
   u_step (1 / 10 ^ 7) (\<lambda>inp st. (inp, inp, inp)) example_uniform [[[3, 4] @ [1]]]
       \<lparr>states_h = [0], states_c = [0], states_constants = (), states_mask = None\<rparr>
     = Inr ([300000000000000 / 100000020000001, 400000000000000 / 100000020000001],
            [300000000000000 / 100000020000001, 400000000000000 / 100000020000001],
            [[100000000000000 / 100000020000001]])"
proof -
  let ?sts = "\<lparr>states_h = [0], states_c = [0], states_constants = (), states_mask = None\<rparr>
                :: unit states"
  have a: "num_senses example_uniform = 1" "[3, 4 :: real] \<noteq> []"
    "states_mask ?sts = None \<or> (\<exists>c. c \<noteq> 0 \<and> states_mask ?sts = Some [[c]])"
    "use_attention example_uniform \<longrightarrow> attention_weights_present example_uniform"
    by simp_all
  from degenerate_effective_input [OF a, where eps = "1 / 10 ^ 7" and lam = 1
         and lstm_step = "\<lambda>inp st. (inp, inp, inp)"]
  show ?thesis by simp
qed

text \<open>For the Keras default \<open>eps\<close> of \<open>1e-7\<close> and \<open>\<lambda> = 1\<close> the embedding \<open>[1]\<close> reaches the
  cell as a value below 1; for \<open>\<lambda> = 0\<close> it reaches the cell as \<open>[0]\<close>.\<close>

theorem degenerate_effective_input_counterexample:
  "u_step (1 / 10 ^ 7) (\<lambda>inp st. (inp, inp, inp)) example_uniform [[[1, 1]]]
       \<lparr>states_h = [0], states_c = [0], states_constants = (), states_mask = None\<rparr>
     = Inr ([100000000000000 / 100000020000001], [100000000000000 / 100000020000001],
            [[100000000000000 / 100000020000001]]) \<and>
   [100000000000000 / 100000020000001 :: real] \<noteq> [1] \<and>
   u_step (1 / 10 ^ 7) (\<lambda>inp st. (inp, inp, inp)) example_uniform [[[1, 0]]]
       \<lparr>states_h = [0], states_c = [0], states_constants = (), states_mask = None\<rparr>
     = Inr ([0], [0], [[0]])"
  by (simp add: u_step_def joint_attention_def hyp_attention_def uniform_hyp_attention_def
        hyp_given_sense_attention_def sense_hyp_attention_def sense_probabilities_def
        masked_sense_scores_def sense_scores_def expanded_sense_indices_def sense_indices_def
        x_synset_embeddings_def lstm_input_t_def mask_input_def weighted_product_def
        sum_senses_hyps_def last_axis_def Let_def)

subsection \<open>The emitted output and the carried states\<close>

lemma hyp_attention_return_attention:
  "hyp_attention (self\<lparr>return_attention := b\<rparr>) emb h mask_i = hyp_attention self emb h mask_i"
  by (simp add: hyp_attention_def split: option.splits)

lemma joint_attention_return_attention:
  "joint_attention eps (self\<lparr>return_attention := b\<rparr>) x h mask_i = joint_attention eps self x h mask_i"
  by (simp add: joint_attention_def hyp_attention_return_attention split: sum.splits)

lemma u_step_return_attention:
  "u_step eps lstm_step (self\<lparr>return_attention := b\<rparr>) x sts = u_step eps lstm_step self x sts"
  by (simp add: u_step_def joint_attention_return_attention split: sum.splits)

lemma step_states:
  "map_sum id snd (step eps lstm_step self x sts)
     = map_sum id (\<lambda>(h, c, att). (h, c)) (u_step eps lstm_step self x sts)"
  by (auto simp: step_def split: sum.splits)

lemma rnn_states_cong:
  assumes "\<And>x sts. map_sum id snd (f x sts) = map_sum id snd (g x sts)"
  shows "map_sum id snd (changing_ndim_rnn f carry xs consts st)
           = map_sum id snd (changing_ndim_rnn g carry xs consts st)"
proof (induction xs arbitrary: st)
  case Nil
  show ?case by simp
next
  case (Cons xm xs)
  obtain x m where xm: "xm = (x, m)" by (cases xm)
  let ?sts = "\<lparr>states_h = fst st, states_c = snd st, states_constants = consts, states_mask = m\<rparr>"
  from assms [of x ?sts] show ?case
  proof (cases "f x ?sts"; cases "g x ?sts")
    fix e e' assume "f x ?sts = Inl e" and "g x ?sts = Inl e'"
    with assms [of x ?sts] show ?thesis by (simp add: xm)
  next
    fix e r assume "f x ?sts = Inl e" and "g x ?sts = Inr r"
    with assms [of x ?sts] show ?thesis by simp
  next
    fix e r assume "f x ?sts = Inr r" and "g x ?sts = Inl e"
    with assms [of x ?sts] show ?thesis by simp
  next
    fix r r' assume f: "f x ?sts = Inr r" and g: "g x ?sts = Inr r'"
    with assms [of x ?sts] have s: "snd r = snd r'" by simp
    obtain o1 n1 where r: "r = (o1, n1)" by (cases r)
    obtain o2 n2 where r': "r' = (o2, n2)" by (cases r')
    from s r r' have n: "n1 = n2" by simp
    from Cons.IH [of "carry m st n1"] show ?thesis
      by (auto simp: xm f g r r' n split: sum.splits)
  qed
qed

text \<open>
  Claim C10. \<open>return_attention\<close> only selects what \<open>step\<close> emits, the joint attention
  grid or the hidden vector of the same \<open>_step\<close> result; the new states, and so the
  whole sequence of carried (hidden, cell) states of a run of the driver, are the same
  for both values of the flag, for every input, mask, weights and initial state.
\<close>

theorem return_attention_changes_only_output:
  "step eps lstm_step (self\<lparr>return_attention := True\<rparr>) x sts
     = map_sum id (\<lambda>(h, c, att). (Attention att, h, c)) (u_step eps lstm_step self x sts) \<and>
   step eps lstm_step (self\<lparr>return_attention := False\<rparr>) x sts
     = map_sum id (\<lambda>(h, c, att). (Hidden h, h, c)) (u_step eps lstm_step self x sts) \<and>
   map_sum id snd
      (changing_ndim_rnn (step eps lstm_step (self\<lparr>return_attention := True\<rparr>)) carry xs consts st)
     = map_sum id snd
        (changing_ndim_rnn (step eps lstm_step (self\<lparr>return_attention := False\<rparr>)) carry xs consts st)"
proof (intro conjI)
  show "step eps lstm_step (self\<lparr>return_attention := True\<rparr>) x sts
          = map_sum id (\<lambda>(h, c, att). (Attention att, h, c)) (u_step eps lstm_step self x sts)"
    by (auto simp: step_def u_step_return_attention split: sum.splits)
  show "step eps lstm_step (self\<lparr>return_attention := False\<rparr>) x sts
          = map_sum id (\<lambda>(h, c, att). (Hidden h, h, c)) (u_step eps lstm_step self x sts)"
    by (auto simp: step_def u_step_return_attention split: sum.splits)
  show "map_sum id snd
      (changing_ndim_rnn (step eps lstm_step (self\<lparr>return_attention := True\<rparr>)) carry xs consts st)
     = map_sum id snd
        (changing_ndim_rnn (step eps lstm_step (self\<lparr>return_attention := False\<rparr>)) carry xs consts st)"
    by (rule rnn_states_cong) (simp add: step_states u_step_return_attention)
qed

subsection \<open>The output mask\<close>

text \<open>
  Claim C5. The claim asks for one validity flag per (sample, timestep), set exactly
  when the timestep has an unmasked hypernym slot. \<open>compute_mask\<close> sums the mask over
  the timestep and sense axes instead of the sense and hyp axes. For a sample with two
  timesteps, one sense and two hyps whose first timestep is fully masked and whose
  second is not, the flags asked for are \<open>[0, 1]\<close>; the result is \<open>[1, 1]\<close>, one entry
  per hyp. For a sample with a single timestep the result still has two entries.
\<close>

theorem compute_mask_sums_time_and_senses:
  "compute_mask example_learned () (Some [[[[0, 0]], [[1, 1]]]]) = Some [[1, 1]] \<and>
   compute_mask example_learned () (Some [[[[1, 1]]]]) = Some [[1, 1]]"
  by (simp add: compute_mask_def hyps_axis_def numeral_2_eq_2)

subsection \<open>Construction and build\<close>

text \<open>
  Claim C8. When the base constructor accepts the arguments and records
  \<open>consume_less = cpu\<close>, construction succeeds, the layer holds \<open>consume_less = mem\<close>,
  one warning is issued, and the layer is the very object that construction with
  \<open>consume_less = mem\<close> yields without a warning (given that the base constructor only
  records that keyword).
\<close>

theorem init_cpu_downgraded:
  assumes "lstm_init ((kwargs(''consume_less'' \<mapsto> PStr ''cpu''))(''output_dim'' \<mapsto> PInt (int od))) = Inr b"
    and "consume_less b = ''cpu''"
    and "lstm_init ((kwargs(''consume_less'' \<mapsto> PStr ''mem''))(''output_dim'' \<mapsto> PInt (int od)))
           = Inr (b\<lparr>consume_less := ''mem''\<rparr>)"
  shows "\<exists>self. init lstm_init od ns nh ua ra (kwargs(''consume_less'' \<mapsto> PStr ''cpu''))
                  = Inr (self, [cpu_warning]) \<and>
               consume_less (base self) = ''mem'' \<and>
               init lstm_init od ns nh ua ra (kwargs(''consume_less'' \<mapsto> PStr ''mem''))
                  = Inr (self, [])"
  using assms by (simp add: init_def Let_def)

theorem init_cpu_downgraded_witness:
  "init example_lstm_init 1 1 2 False False (Map.empty(''consume_less'' \<mapsto> PStr ''cpu''))
     = Inr (example_unbuilt\<lparr>base := example_base\<lparr>return_sequences := False\<rparr>\<rparr>, [cpu_warning]) \<and>
   init example_lstm_init 1 1 2 False False (Map.empty(''consume_less'' \<mapsto> PStr ''mem''))
     = Inr (example_unbuilt\<lparr>base := example_base\<lparr>return_sequences := False\<rparr>\<rparr>, [])"
proof -
  let ?b = "\<lparr>output_dim = 1, consume_less = ''cpu'', return_sequences = False,
             initial_weights = None, input_spec = [InputSpec_ndim 3], trainable_weights = [],
             other = ()\<rparr> :: unit lstm_layer"
  have 1: "example_lstm_init ((Map.empty(''consume_less'' \<mapsto> PStr ''cpu''))(''output_dim'' \<mapsto> PInt (int 1)))
             = Inr ?b"
    by simp
  have 2: "consume_less ?b = ''cpu''" by simp
  have 3: "example_lstm_init ((Map.empty(''consume_less'' \<mapsto> PStr ''mem''))(''output_dim'' \<mapsto> PInt (int 1)))
             = Inr (?b\<lparr>consume_less := ''mem''\<rparr>)"
    by simp
  from init_cpu_downgraded [of example_lstm_init Map.empty 1 ?b 1 2 False False, OF 1 2 3]
  obtain self where a: "init example_lstm_init 1 1 2 False False (Map.empty(''consume_less'' \<mapsto> PStr ''cpu''))
                  = Inr (self, [cpu_warning])"
    and c: "init example_lstm_init 1 1 2 False False (Map.empty(''consume_less'' \<mapsto> PStr ''mem''))
                  = Inr (self, [])"
    by blast
  have "init example_lstm_init 1 1 2 False False (Map.empty(''consume_less'' \<mapsto> PStr ''mem''))
          = Inr (example_unbuilt\<lparr>base := example_base\<lparr>return_sequences := False\<rparr>\<rparr>, [])"
    by (simp add: init_def)
  with c have "self = example_unbuilt\<lparr>base := example_base\<lparr>return_sequences := False\<rparr>\<rparr>" by simp
  with a c show ?thesis by simp
qed

text \<open>
  Claim C6, as amended. \<open>build\<close> compares the input shape with neither \<open>num_senses\<close> nor
  \<open>num_hyps\<close>, and derives the embedding dimension from the shape's last entry: for
  every shape of at least five entries with a known last entry \<open>d\<close>, whatever its sense
  and hyp entries are, \<open>build\<close> succeeds whenever the build of the base class and the
  weight initialisers do (and restoring supplied weights does), with
  \<open>input_dim = d - 1\<close> and the shape recorded as input spec.
\<close>

theorem build_accepts_any_hierarchy:
  assumes "4 < length input_shape" and "input_shape ! 4 = Some d"
    and "lstm_build ((base self)\<lparr>input_spec := [InputSpec_shape input_shape], initial_weights := None\<rparr>)
           (take 2 input_shape @ [Some (d - 1)]) = Inr b"
    and "use_attention self \<longrightarrow>
           inner_init (d - 1, int (output_dim b)) = Inr W \<and>
           inner_init (int (output_dim b), int (output_dim b)) = Inr U \<and>
           init_w (int (output_dim b)) = Inr v"
  shows "\<exists>L. build lstm_build inner_init init_w set_weights self input_shape
                = (case initial_weights (base self) of None \<Rightarrow> Inr L | Some w \<Rightarrow> set_weights L w) \<and>
              num_senses L = num_senses self \<and> num_hyps L = num_hyps self \<and>
              input_dim L = Some (d - 1) \<and>
              input_spec (base L) = [InputSpec_shape input_shape]"
proof (cases "use_attention self")
  case True
  let ?L = "self\<lparr>input_dim := Some (d - 1), input_hyp_projector := Some W,
                 context_hyp_projector := Some U, hyp_scorer := Some v,
                 base := b\<lparr>input_spec := [InputSpec_shape input_shape],
                           trainable_weights := trainable_weights b @ [Matrix W, Matrix U, Vector v]\<rparr>\<rparr>"
  from True assms show ?thesis
    by (intro exI [of _ ?L]) (simp add: build_def Let_def)
next
  case False
  let ?L = "self\<lparr>input_dim := Some (d - 1),
                 base := b\<lparr>input_spec := [InputSpec_shape input_shape]\<rparr>\<rparr>"
  from False assms show ?thesis
    by (intro exI [of _ ?L]) (simp add: build_def Let_def)
qed

theorem build_accepts_any_hierarchy_witness:
  "build (\<lambda>b shp. Inr b) (\<lambda>(r, c). Inr (replicate (nat r) (replicate (nat c) 0)))
         (\<lambda>n. Inr (replicate (nat n) 0)) (\<lambda>l w. Inr l)
         (example_unbuilt\<lparr>use_attention := True\<rparr>) [None, Some 5, Some 1, Some 2, Some 2]
     = Inr (example_unbuilt\<lparr>use_attention := True, input_dim := Some 1,
              input_hyp_projector := Some [[0]], context_hyp_projector := Some [[0]],
              hyp_scorer := Some [0],
              base := example_base\<lparr>input_spec := [InputSpec_shape [None, Some 5, Some 1, Some 2, Some 2]],
                trainable_weights := [Matrix [[0]], Matrix [[0]], Vector [0]]\<rparr>\<rparr>)"
proof -
  let ?shp = "[None, Some 5, Some 1, Some 2, Some 2] :: int option list"
  let ?self = "example_unbuilt\<lparr>use_attention := True\<rparr>"
  let ?lb = "\<lambda>(b :: unit lstm_layer) (shp :: int option list). (Inr b :: error + unit lstm_layer)"
  let ?ii = "\<lambda>(r, c). (Inr (replicate (nat r) (replicate (nat c) 0)) :: error + real list list)"
  let ?iw = "\<lambda>n. (Inr (replicate (nat n) 0) :: error + real list)"
  let ?sw = "\<lambda>(l :: unit onto_layer) (w :: weight list). (Inr l :: error + unit onto_layer)"
  let ?b = "(base ?self)\<lparr>input_spec := [InputSpec_shape ?shp], initial_weights := None\<rparr>"
  have 1: "4 < length ?shp" and 2: "?shp ! 4 = Some 2" by simp_all
  have 3: "?lb ((base ?self)\<lparr>input_spec := [InputSpec_shape ?shp], initial_weights := None\<rparr>)
            (take 2 ?shp @ [Some (2 - 1)]) = Inr ?b"
    by simp
  have 4: "use_attention ?self \<longrightarrow>
           ?ii (2 - 1, int (output_dim ?b)) = Inr [[0]] \<and>
           ?ii (int (output_dim ?b), int (output_dim ?b)) = Inr [[0]] \<and>
           ?iw (int (output_dim ?b)) = Inr [0]"
    by simp
  from build_accepts_any_hierarchy [of ?shp 2 ?lb ?self ?b ?ii "[[0]]" "[[0]]" ?iw "[0]" ?sw, OF 1 2 3 4]
  obtain L where "build ?lb ?ii ?iw ?sw ?self ?shp = Inr L" by auto
  moreover have "build ?lb ?ii ?iw ?sw ?self ?shp
     = Inr (example_unbuilt\<lparr>use_attention := True, input_dim := Some 1,
              input_hyp_projector := Some [[0]], context_hyp_projector := Some [[0]],
              hyp_scorer := Some [0],
              base := example_base\<lparr>input_spec := [InputSpec_shape ?shp],
                trainable_weights := [Matrix [[0]], Matrix [[0]], Vector [0]]\<rparr>\<rparr>)"
    by (simp add: build_def)
  ultimately show ?thesis by simp
qed

text \<open>A layer configured with one sense and two hyps builds on an input shape with
  three senses and four hyps.\<close>

theorem build_mismatch_counterexample:
  "build (\<lambda>b shp. Inr b) (\<lambda>(r, c). Inr (replicate (nat r) (replicate (nat c) 0)))
         (\<lambda>n. Inr (replicate (nat n) 0)) (\<lambda>l w. Inr l)
         example_unbuilt [None, Some 5, Some 3, Some 4, Some 2]
     = Inr (example_unbuilt\<lparr>input_dim := Some 1,
              base := example_base\<lparr>input_spec := [InputSpec_shape [None, Some 5, Some 3, Some 4, Some 2]]\<rparr>\<rparr>) \<and>
   int (num_senses example_unbuilt) \<noteq> 3 \<and> int (num_hyps example_unbuilt) \<noteq> 4"
  by (simp add: build_def)

end
